theory Spec2Isabelle
  imports Complex_Main
begin

section \<open>Career assistant: the client's handlers and the pipeline contracts\<close>

text \<open>
  The sources are the four React components of the front end: \<open>Home\<close> (app/page.tsx),
  \<open>FileUpload\<close>, \<open>DocumentGeneration\<close> and \<open>EmailSender\<close>. Each component is a record of
  its \<open>useState\<close> cells, each handler a function from the cells it reads to the cells it
  writes, together with the list of effects it performs (HTTP requests, downloads, calls of
  the parent's callbacks). An \<open>async\<close> handler is cut at its \<open>await fetch\<close>: the part
  before it is \<open>_start\<close>, the part after it \<open>_finish\<close>, which receives the outcome of
  the request and the variables of the closure it was started in.

  The cells are named after the source, prefixed by the component where two components use
  one name (\<open>error\<close>, \<open>success\<close>, \<open>resumeFile\<close>).
\<close>

subsection \<open>Values shared by the components\<close>

text \<open>The type \<open>"docx" | "pdf"\<close> of the generation handlers' parameter.\<close>

datatype format = Docx | Pdf

fun format_str :: "format \<Rightarrow> string" where
  "format_str Docx = ''docx''"
| "format_str Pdf = ''pdf''"

text \<open>A browser \<open>File\<close>: its name, its MIME type (\<open>file.type\<close>) and its bytes.\<close>

record browser_file =
  file_name :: string
  file_type :: string
  file_bytes :: "nat list"

text \<open>
  The members of the analysis payload that \<open>Home\<close> reads. The payload is typed \<open>any\<close>;
  \<open>Home\<close> reaches into it with \<open>?.\<close>, so either part may be absent.
\<close>

record job_analysis =
  job_title :: "string option"
  company_name :: "string option"
  contact_email :: "string option"

record resume_analysis =
  candidate_name :: "string option"

record analysis_data =
  job_analysis :: "job_analysis option"
  resume_analysis :: "resume_analysis option"

subsection \<open>Home (app/page.tsx)\<close>

datatype step = Upload | Results

record uploaded_files =
  resume :: "browser_file option"
  jobDescription :: "browser_file option"

record generated_docs =
  resumePath :: string
  coverLetterPath :: string

record home_state =
  step :: step
  analysisData :: "analysis_data option"
  uploadedFiles :: uploaded_files
  generatedDocs :: generated_docs

definition home_init :: home_state where
  "home_init = \<lparr> step = Upload, analysisData = None,
     uploadedFiles = \<lparr> resume = None, jobDescription = None \<rparr>,
     generatedDocs = \<lparr> resumePath = [], coverLetterPath = [] \<rparr> \<rparr>"

definition handleAnalysisComplete :: "analysis_data \<Rightarrow> browser_file \<Rightarrow> browser_file \<Rightarrow> home_state \<Rightarrow> home_state" where
  "handleAnalysisComplete d r j h =
     h\<lparr> analysisData := Some d,
        uploadedFiles := \<lparr> resume = Some r, jobDescription = Some j \<rparr>,
        step := Results \<rparr>"

definition handleReset :: "home_state \<Rightarrow> home_state" where
  "handleReset h =
     h\<lparr> step := Upload,
        analysisData := None,
        uploadedFiles := \<lparr> resume = None, jobDescription = None \<rparr> \<rparr>"

text \<open>\<open>onDocumentsGenerated={setGeneratedDocs}\<close>: the callback replaces both paths.\<close>

definition setGeneratedDocs :: "generated_docs \<Rightarrow> home_state \<Rightarrow> home_state" where
  "setGeneratedDocs g h = h\<lparr> generatedDocs := g \<rparr>"

subsection \<open>Exceptions, promises and HTTP responses\<close>

text \<open>
  A thrown value is an \<open>Error\<close> with its message, or something else. Every handler ends in
  \<open>catch (err) { setError(err instanceof Error ? err.message : "An error occurred") }\<close>.
\<close>

datatype thrown = Error string | NonError

fun err_message :: "thrown \<Rightarrow> string" where
  "err_message (Error m) = m"
| "err_message NonError = ''An error occurred''"

datatype 'a settled = Fulfilled 'a | Rejected thrown

text \<open>
  A JSON value as JavaScript sees it after \<open>response.json()\<close>. Of a number only what
  the handlers use is kept: whether it is truthy (not zero) and how it prints; an object
  prints as \<open>[object Object]\<close> whatever its members.
\<close>

datatype json = JNull | JBool bool | JNum bool string | JStr string | JArr "json list" | JObj

text \<open>Truthiness, as \<open>||\<close> tests it.\<close>

fun truthy :: "json \<Rightarrow> bool" where
  "truthy JNull = False"
| "truthy (JBool b) = b"
| "truthy (JNum nonzero shown) = nonzero"
| "truthy (JStr x) = (x \<noteq> [])"
| "truthy (JArr xs) = True"
| "truthy JObj = True"

fun join_commas :: "string list \<Rightarrow> string" where
  "join_commas [] = []"
| "join_commas [x] = x"
| "join_commas (x # y # ys) = x @ '','' @ join_commas (y # ys)"

text \<open>
  The conversion to a string that \<open>new Error(value)\<close> applies to its argument. An array
  joins its elements with commas, a \<open>null\<close> element giving the empty string.
\<close>

fun to_string :: "json \<Rightarrow> string" where
  "to_string JNull = ''null''"
| "to_string (JBool b) = (if b then ''true'' else ''false'')"
| "to_string (JNum nonzero shown) = shown"
| "to_string (JStr x) = x"
| "to_string (JArr xs) = join_commas (map (\<lambda>x. if x = JNull then [] else to_string x) xs)"
| "to_string JObj = ''[object Object]''"

text \<open>
  What a handler reads of a response: the flag \<open>response.ok\<close>; on the failure path
  \<open>(await response.json()).detail\<close>, which is absent or some JSON value (the server's error
  body is \<open>{"detail": message}\<close>, and a validation error of the framework carries a list)
  unless reading it throws; on the success path the body, read with \<open>response.json()\<close> or
  \<open>response.blob()\<close>, unless that throws. \<open>fetch\<close> itself rejects when the network fails.
\<close>

record 'a response =
  ok :: bool
  error_detail :: "json option settled"
  payload :: "'a settled"

datatype 'a fetch_outcome = NetworkError thrown | Response "'a response"

text \<open>
  \<open>x || d\<close> for a string \<open>x\<close> that may be absent: the empty string is falsy, as \<open>null\<close> and
  \<open>undefined\<close> are.
\<close>

fun js_or :: "string option \<Rightarrow> string \<Rightarrow> string" where
  "js_or None d = d"
| "js_or (Some x) d = (if x = [] then d else x)"

text \<open>
  The message of \<open>new Error(errorData.detail || dflt)\<close>: the detail converted to a string
  when it is there and truthy, the default otherwise.
\<close>

fun detail_or :: "json option \<Rightarrow> string \<Rightarrow> string" where
  "detail_or None dflt = dflt"
| "detail_or (Some v) dflt = (if truthy v then to_string v else dflt)"

text \<open>The JSON body of \<open>POST /api/send-email\<close>.\<close>

record send_email_request =
  recipient_email :: string
  subject :: string
  body :: string
  resume_path :: string
  cover_letter_path :: string

datatype request_body =
    AnalyzeForm browser_file browser_file
  | GenerateForm browser_file browser_file string
  | SendEmailJson send_email_request

text \<open>
  The effects of a handler, in the order it performs them: a \<open>fetch\<close> with method POST, the
  download of a blob under a file name (\<open>a.download = filename; a.click()\<close>), and the calls
  of the callbacks a parent passed in.
\<close>

datatype effect =
    HttpPost string request_body
  | Download string "nat list"
  | OnAnalysisComplete analysis_data browser_file browser_file
  | OnDocumentsGenerated generated_docs

subsection \<open>FileUpload (components/FileUpload.tsx)\<close>

datatype slot = ResumeSlot | JobSlot

datatype drag_event = DragEnter | DragOver | DragLeave | DragOther

record upload_state =
  fu_resumeFile :: "browser_file option"
  fu_jobFile :: "browser_file option"
  fu_loading :: bool
  fu_error :: "string option"
  fu_dragActive :: "slot option"

definition upload_init :: upload_state where
  "upload_init = \<lparr> fu_resumeFile = None, fu_jobFile = None, fu_loading = False,
     fu_error = None, fu_dragActive = None \<rparr>"

definition handleDrag :: "drag_event \<Rightarrow> slot \<Rightarrow> upload_state \<Rightarrow> upload_state" where
  "handleDrag e t s =
     (if e = DragEnter \<or> e = DragOver then s\<lparr> fu_dragActive := Some t \<rparr>
      else if e = DragLeave then s\<lparr> fu_dragActive := None \<rparr>
      else s)"

text \<open>
  The body shared by \<open>handleDrop\<close> and \<open>handleFileChange\<close>: \<open>if (files && files[0])\<close>,
  then the test of \<open>file.type\<close>. The file list may be \<open>null\<close> or empty.
\<close>

definition take_file :: "browser_file list option \<Rightarrow> slot \<Rightarrow> upload_state \<Rightarrow> upload_state" where
  "take_file files t s =
     (case files of
        Some (f # _) \<Rightarrow>
          (if file_type f = ''application/pdf''
           then (if t = ResumeSlot then s\<lparr> fu_resumeFile := Some f \<rparr>
                 else s\<lparr> fu_jobFile := Some f \<rparr>) \<lparr> fu_error := None \<rparr>
           else s\<lparr> fu_error := Some ''Please upload PDF files only'' \<rparr>)
      | _ \<Rightarrow> s)"

definition handleDrop :: "browser_file list option \<Rightarrow> slot \<Rightarrow> upload_state \<Rightarrow> upload_state" where
  "handleDrop files t s = take_file files t (s\<lparr> fu_dragActive := None \<rparr>)"

definition handleFileChange :: "browser_file list option \<Rightarrow> slot \<Rightarrow> upload_state \<Rightarrow> upload_state" where
  "handleFileChange files t s = take_file files t s"

definition analyze_url :: string where
  "analyze_url = ''http://localhost:8000/api/upload-and-analyze''"

definition handleAnalyze_start :: "upload_state \<Rightarrow> upload_state \<times> effect list" where
  "handleAnalyze_start s =
     (case (fu_resumeFile s, fu_jobFile s) of
        (Some r, Some j) \<Rightarrow>
          (s\<lparr> fu_loading := True, fu_error := None \<rparr>, [HttpPost analyze_url (AnalyzeForm r j)])
      | _ \<Rightarrow> (s\<lparr> fu_error := Some ''Please upload both files'' \<rparr>, []))"

text \<open>\<open>catch\<close> and \<open>finally\<close> of \<open>handleAnalyze\<close>.\<close>

definition analyze_failed :: "string \<Rightarrow> upload_state \<Rightarrow> upload_state \<times> effect list" where
  "analyze_failed m s = (s\<lparr> fu_error := Some m, fu_loading := False \<rparr>, [])"

text \<open>
  The rest of \<open>handleAnalyze\<close>, after \<open>await fetch\<close>; \<open>r\<close> and \<open>j\<close> are \<open>resumeFile\<close> and
  \<open>jobFile\<close> as the closure holds them.
\<close>

definition handleAnalyze_finish ::
  "browser_file \<Rightarrow> browser_file \<Rightarrow> analysis_data fetch_outcome \<Rightarrow> upload_state
     \<Rightarrow> upload_state \<times> effect list" where
  "handleAnalyze_finish r j out s =
     (case out of
        NetworkError e \<Rightarrow> analyze_failed (err_message e) s
      | Response resp \<Rightarrow>
          (if \<not> ok resp then
             (case error_detail resp of
                Rejected e \<Rightarrow> analyze_failed (err_message e) s
              | Fulfilled d \<Rightarrow> analyze_failed (detail_or d ''Analysis failed'') s)
           else
             (case payload resp of
                Rejected e \<Rightarrow> analyze_failed (err_message e) s
              | Fulfilled data \<Rightarrow> (s\<lparr> fu_loading := False \<rparr>, [OnAnalysisComplete data r j]))))"

text \<open>The whole handler, when nothing else happens while the request is in flight.\<close>

definition handleAnalyze :: "analysis_data fetch_outcome \<Rightarrow> upload_state \<Rightarrow> upload_state \<times> effect list" where
  "handleAnalyze out s =
     (case (fu_resumeFile s, fu_jobFile s) of
        (Some r, Some j) \<Rightarrow>
          (let (s1, fx1) = handleAnalyze_start s;
               (s2, fx2) = handleAnalyze_finish r j out s1
           in (s2, fx1 @ fx2))
      | _ \<Rightarrow> handleAnalyze_start s)"

definition analyze_disabled :: "upload_state \<Rightarrow> bool" where
  "analyze_disabled s = (fu_resumeFile s = None \<or> fu_jobFile s = None \<or> fu_loading s)"

subsection \<open>DocumentGeneration\<close>

text \<open>
  The props: the two files \<open>Home\<close> keeps in \<open>uploadedFiles\<close>, and whether the optional
  callback \<open>onDocumentsGenerated\<close> was passed.
\<close>

record docgen_props =
  dp_resumeFile :: "browser_file option"
  dp_jobDescriptionFile :: "browser_file option"
  dp_onDocumentsGenerated :: bool

record docgen_state =
  loadingResume :: bool
  loadingCover :: bool
  dg_error :: "string option"
  dg_success :: "string option"
  dg_resumePath :: string
  dg_coverPath :: string

definition docgen_init :: docgen_state where
  "docgen_init = \<lparr> loadingResume = False, loadingCover = False, dg_error = None,
     dg_success = None, dg_resumePath = [], dg_coverPath = [] \<rparr>"

text \<open>The check mark U+2705 that starts the success messages, as UTF-8.\<close>

definition check_mark :: string where
  "check_mark = [CHR 0xE2, CHR 0x9C, CHR 0x85]"

text \<open>The template literals \<open>`latest_resume.${format}`\<close>, \<open>`latest_cover_letter.${format}`\<close>
  and \<open>`generated/${filename}`\<close>.\<close>

definition resume_filename :: "format \<Rightarrow> string" where
  "resume_filename f = ''latest_resume.'' @ format_str f"

definition cover_letter_filename :: "format \<Rightarrow> string" where
  "cover_letter_filename f = ''latest_cover_letter.'' @ format_str f"

definition backendPath :: "string \<Rightarrow> string" where
  "backendPath filename = ''generated/'' @ filename"

definition generate_resume_url :: string where
  "generate_resume_url = ''http://localhost:8000/api/generate-resume''"

definition generate_cover_letter_url :: string where
  "generate_cover_letter_url = ''http://localhost:8000/api/generate-cover-letter''"

definition handleGenerateResume_start ::
  "docgen_props \<Rightarrow> format \<Rightarrow> docgen_state \<Rightarrow> docgen_state \<times> effect list" where
  "handleGenerateResume_start p f s =
     (case (dp_resumeFile p, dp_jobDescriptionFile p) of
        (Some r, Some j) \<Rightarrow>
          (s\<lparr> loadingResume := True, dg_error := None, dg_success := None \<rparr>,
           [HttpPost generate_resume_url (GenerateForm r j (format_str f))])
      | _ \<Rightarrow> (s\<lparr> dg_error := Some ''Missing required files'' \<rparr>, []))"

definition resume_failed :: "string \<Rightarrow> docgen_state \<Rightarrow> docgen_state \<times> effect list" where
  "resume_failed m s = (s\<lparr> dg_error := Some m, loadingResume := False \<rparr>, [])"

text \<open>
  The rest of \<open>handleGenerateResume\<close>, after \<open>await fetch\<close>. \<open>cover\<close> is \<open>coverPath\<close> as the
  closure holds it: the handler belongs to the render in which the button was clicked, and
  passes that value to the parent whatever \<open>coverPath\<close> has become since.
\<close>

definition handleGenerateResume_finish ::
  "docgen_props \<Rightarrow> string \<Rightarrow> format \<Rightarrow> nat list fetch_outcome \<Rightarrow> docgen_state
     \<Rightarrow> docgen_state \<times> effect list" where
  "handleGenerateResume_finish p cover f out s =
     (case out of
        NetworkError e \<Rightarrow> resume_failed (err_message e) s
      | Response resp \<Rightarrow>
          (if \<not> ok resp then
             (case error_detail resp of
                Rejected e \<Rightarrow> resume_failed (err_message e) s
              | Fulfilled d \<Rightarrow> resume_failed (detail_or d ''Resume generation failed'') s)
           else
             (let filename = resume_filename f in
              case payload resp of
                Rejected e \<Rightarrow> resume_failed (err_message e) s
              | Fulfilled blob \<Rightarrow>
                  (let path = backendPath filename in
                   (s\<lparr> dg_resumePath := path,
                       dg_success := Some (check_mark @ '' Resume: '' @ filename),
                       loadingResume := False \<rparr>,
                    Download filename blob #
                    (if dp_onDocumentsGenerated p
                     then [OnDocumentsGenerated \<lparr> resumePath = path, coverLetterPath = cover \<rparr>]
                     else []))))))"

definition handleGenerateResume ::
  "docgen_props \<Rightarrow> format \<Rightarrow> nat list fetch_outcome \<Rightarrow> docgen_state
     \<Rightarrow> docgen_state \<times> effect list" where
  "handleGenerateResume p f out s =
     (case (dp_resumeFile p, dp_jobDescriptionFile p) of
        (Some r, Some j) \<Rightarrow>
          (let (s1, fx1) = handleGenerateResume_start p f s;
               (s2, fx2) = handleGenerateResume_finish p (dg_coverPath s) f out s1
           in (s2, fx1 @ fx2))
      | _ \<Rightarrow> handleGenerateResume_start p f s)"

definition handleGenerateCoverLetter_start ::
  "docgen_props \<Rightarrow> format \<Rightarrow> docgen_state \<Rightarrow> docgen_state \<times> effect list" where
  "handleGenerateCoverLetter_start p f s =
     (case (dp_resumeFile p, dp_jobDescriptionFile p) of
        (Some r, Some j) \<Rightarrow>
          (s\<lparr> loadingCover := True, dg_error := None, dg_success := None \<rparr>,
           [HttpPost generate_cover_letter_url (GenerateForm r j (format_str f))])
      | _ \<Rightarrow> (s\<lparr> dg_error := Some ''Missing required files'' \<rparr>, []))"

definition cover_failed :: "string \<Rightarrow> docgen_state \<Rightarrow> docgen_state \<times> effect list" where
  "cover_failed m s = (s\<lparr> dg_error := Some m, loadingCover := False \<rparr>, [])"

text \<open>As above; \<open>res\<close> is \<open>resumePath\<close> as the closure holds it.\<close>

definition handleGenerateCoverLetter_finish ::
  "docgen_props \<Rightarrow> string \<Rightarrow> format \<Rightarrow> nat list fetch_outcome \<Rightarrow> docgen_state
     \<Rightarrow> docgen_state \<times> effect list" where
  "handleGenerateCoverLetter_finish p res f out s =
     (case out of
        NetworkError e \<Rightarrow> cover_failed (err_message e) s
      | Response resp \<Rightarrow>
          (if \<not> ok resp then
             (case error_detail resp of
                Rejected e \<Rightarrow> cover_failed (err_message e) s
              | Fulfilled d \<Rightarrow> cover_failed (detail_or d ''Cover letter generation failed'') s)
           else
             (let filename = cover_letter_filename f in
              case payload resp of
                Rejected e \<Rightarrow> cover_failed (err_message e) s
              | Fulfilled blob \<Rightarrow>
                  (let path = backendPath filename in
                   (s\<lparr> dg_coverPath := path,
                       dg_success := Some (check_mark @ '' Cover Letter: '' @ filename),
                       loadingCover := False \<rparr>,
                    Download filename blob #
                    (if dp_onDocumentsGenerated p
                     then [OnDocumentsGenerated \<lparr> resumePath = res, coverLetterPath = path \<rparr>]
                     else []))))))"

definition handleGenerateCoverLetter ::
  "docgen_props \<Rightarrow> format \<Rightarrow> nat list fetch_outcome \<Rightarrow> docgen_state
     \<Rightarrow> docgen_state \<times> effect list" where
  "handleGenerateCoverLetter p f out s =
     (case (dp_resumeFile p, dp_jobDescriptionFile p) of
        (Some r, Some j) \<Rightarrow>
          (let (s1, fx1) = handleGenerateCoverLetter_start p f s;
               (s2, fx2) = handleGenerateCoverLetter_finish p (dg_resumePath s) f out s1
           in (s2, fx1 @ fx2))
      | _ \<Rightarrow> handleGenerateCoverLetter_start p f s)"

subsection \<open>EmailSender\<close>

record email_props =
  contactEmail :: "string option"
  jobTitle :: string
  companyName :: "string option"
  candidateName :: "string option"
  ep_resumePath :: string
  ep_coverLetterPath :: string

record email_state =
  recipientEmail :: string
  es_subject :: string
  es_body :: string
  sending :: bool
  es_success :: "string option"
  es_error :: "string option"

definition nl :: string where
  "nl = [CHR 0x0A]"

text \<open>
  \<open>c ? `${pre}${c}` : ""\<close> for a string \<open>c\<close> that may be \<open>null\<close>: the test is JavaScript's
  truthiness, which the empty string fails.
\<close>

fun js_if_truthy :: "string option \<Rightarrow> string \<Rightarrow> string" where
  "js_if_truthy None pre = []"
| "js_if_truthy (Some c) pre = (if c = [] then [] else pre @ c)"

text \<open>The initial values of the \<open>useState\<close> cells, computed from the props at mount.\<close>

definition email_init :: "email_props \<Rightarrow> email_state" where
  "email_init p =
     \<lparr> recipientEmail = js_or (contactEmail p) [],
       es_subject = ''Application for '' @ jobTitle p @ js_if_truthy (candidateName p) '' - '',
       es_body =
         ''Dear Hiring Manager,'' @ nl @ nl
         @ ''I am writing to express my strong interest in the '' @ jobTitle p @ '' position''
         @ js_if_truthy (companyName p) '' at ''
         @ ''. Please find attached my resume and cover letter for your review.'' @ nl @ nl
         @ ''I look forward to the opportunity to discuss how my skills and experience align with your team's needs.''
         @ nl @ nl @ ''Best regards,'' @ nl
         @ js_or (candidateName p) ''[Your Name]'',
       sending = False, es_success = None, es_error = None \<rparr>"

definition send_email_url :: string where
  "send_email_url = ''http://localhost:8000/api/send-email''"

definition handleSendEmail_start :: "email_props \<Rightarrow> email_state \<Rightarrow> email_state \<times> effect list" where
  "handleSendEmail_start p s =
     (if recipientEmail s = [] then
        (s\<lparr> es_error := Some ''Please enter a recipient email address'' \<rparr>, [])
      else if ep_resumePath p = [] \<or> ep_coverLetterPath p = [] then
        (s\<lparr> es_error := Some ''Please generate documents before sending email'' \<rparr>, [])
      else
        (s\<lparr> sending := True, es_error := None, es_success := None \<rparr>,
         [HttpPost send_email_url (SendEmailJson
            \<lparr> recipient_email = recipientEmail s, subject = es_subject s, body = es_body s,
              resume_path = ep_resumePath p, cover_letter_path = ep_coverLetterPath p \<rparr>)]))"

definition send_failed :: "string \<Rightarrow> email_state \<Rightarrow> email_state \<times> effect list" where
  "send_failed m s = (s\<lparr> es_error := Some m, sending := False \<rparr>, [])"

text \<open>The rest of \<open>handleSendEmail\<close>; the payload of a good response is \<open>data.message\<close>.\<close>

definition handleSendEmail_finish ::
  "string option fetch_outcome \<Rightarrow> email_state \<Rightarrow> email_state \<times> effect list" where
  "handleSendEmail_finish out s =
     (case out of
        NetworkError e \<Rightarrow> send_failed (err_message e) s
      | Response resp \<Rightarrow>
          (if \<not> ok resp then
             (case error_detail resp of
                Rejected e \<Rightarrow> send_failed (err_message e) s
              | Fulfilled d \<Rightarrow> send_failed (detail_or d ''Failed to send email'') s)
           else
             (case payload resp of
                Rejected e \<Rightarrow> send_failed (err_message e) s
              | Fulfilled message \<Rightarrow>
                  (s\<lparr> es_success := Some (js_or message ''Email sent successfully!''),
                      sending := False \<rparr>, []))))"

definition handleSendEmail ::
  "email_props \<Rightarrow> string option fetch_outcome \<Rightarrow> email_state \<Rightarrow> email_state \<times> effect list" where
  "handleSendEmail p out s =
     (let (s1, fx1) = handleSendEmail_start p s in
      if fx1 = [] then (s1, [])
      else (let (s2, fx2) = handleSendEmail_finish out s1 in (s2, fx1 @ fx2)))"


subsection \<open>The page as a whole\<close>

text \<open>
  What \<open>Home\<close> renders (page.tsx 66-87): \<open>FileUpload\<close> while the step is \<open>upload\<close>;
  otherwise \<open>DocumentGeneration\<close>, and \<open>EmailSender\<close> once one of the two paths of
  \<open>generatedDocs\<close> is non-empty. The props are computed from the state of \<open>Home\<close>.
\<close>

text \<open>\<open>x || null\<close> for a string \<open>x\<close> that may be absent.\<close>

fun js_or_null :: "string option \<Rightarrow> string option" where
  "js_or_null None = None"
| "js_or_null (Some x) = (if x = [] then None else Some x)"

definition docgen_props_of :: "home_state \<Rightarrow> docgen_props" where
  "docgen_props_of h =
     \<lparr> dp_resumeFile = resume (uploadedFiles h),
       dp_jobDescriptionFile = jobDescription (uploadedFiles h),
       dp_onDocumentsGenerated = True \<rparr>"

definition email_props_of :: "home_state \<Rightarrow> email_props" where
  "email_props_of h =
     (let ja = Option.bind (analysisData h) job_analysis;
          ra = Option.bind (analysisData h) resume_analysis
      in \<lparr> contactEmail = js_or_null (Option.bind ja contact_email),
           jobTitle = js_or (Option.bind ja job_title) [],
           companyName = js_or_null (Option.bind ja company_name),
           candidateName = js_or_null (Option.bind ra candidate_name),
           ep_resumePath = resumePath (generatedDocs h),
           ep_coverLetterPath = coverLetterPath (generatedDocs h) \<rparr>)"

definition email_shown :: "home_state \<Rightarrow> bool" where
  "email_shown h =
     (step h = Results
      \<and> (resumePath (generatedDocs h) \<noteq> [] \<or> coverLetterPath (generatedDocs h) \<noteq> []))"

text \<open>
  A request in flight, with what the closure of its handler holds: the instance of the
  component that started it, and for \<open>handleAnalyze\<close> the two files, for the generation
  handlers the format and the other document's path.
\<close>

datatype pending =
    PAnalyze nat browser_file browser_file
  | PResume nat format string
  | PCover nat format string
  | PSend nat

text \<open>
  The page: the state of \<open>Home\<close>, the state of each mounted child with the number of its
  instance (a child that is unmounted and mounted again starts from its initial state, and
  a handler of the old instance no longer reaches it), the requests in flight, and every
  effect performed so far.
\<close>

record system =
  home :: home_state
  upload :: "(nat \<times> upload_state) option"
  docgen :: "(nat \<times> docgen_state) option"
  email :: "(nat \<times> email_state) option"
  mounts :: nat
  inflight :: "pending list"
  trace :: "effect list"

definition render_upload :: "system \<Rightarrow> system" where
  "render_upload y =
     (if step (home y) = Upload then
        (case upload y of
           None \<Rightarrow> y\<lparr> upload := Some (mounts y, upload_init), mounts := Suc (mounts y) \<rparr>
         | Some _ \<Rightarrow> y)
      else y\<lparr> upload := None \<rparr>)"

definition render_docgen :: "system \<Rightarrow> system" where
  "render_docgen y =
     (if step (home y) = Results then
        (case docgen y of
           None \<Rightarrow> y\<lparr> docgen := Some (mounts y, docgen_init), mounts := Suc (mounts y) \<rparr>
         | Some _ \<Rightarrow> y)
      else y\<lparr> docgen := None \<rparr>)"

definition render_email :: "system \<Rightarrow> system" where
  "render_email y =
     (if email_shown (home y) then
        (case email y of
           None \<Rightarrow> y\<lparr> email := Some (mounts y, email_init (email_props_of (home y))),
                      mounts := Suc (mounts y) \<rparr>
         | Some _ \<Rightarrow> y)
      else y\<lparr> email := None \<rparr>)"

definition render :: "system \<Rightarrow> system" where
  "render y = render_email (render_docgen (render_upload y))"

definition system_init :: system where
  "system_init = render \<lparr> home = home_init, upload = None, docgen = None, email = None,
     mounts = 0, inflight = [], trace = [] \<rparr>"

text \<open>
  Performing an effect: it is recorded, and a callback runs on \<open>Home\<close>
  (\<open>onAnalysisComplete={handleAnalysisComplete}\<close>, \<open>onDocumentsGenerated={setGeneratedDocs}\<close>).
\<close>

fun perform :: "system \<Rightarrow> effect \<Rightarrow> system" where
  "perform y (OnAnalysisComplete d r j) =
     y\<lparr> home := handleAnalysisComplete d r j (home y),
        trace := trace y @ [OnAnalysisComplete d r j] \<rparr>"
| "perform y (OnDocumentsGenerated g) =
     y\<lparr> home := setGeneratedDocs g (home y), trace := trace y @ [OnDocumentsGenerated g] \<rparr>"
| "perform y e = y\<lparr> trace := trace y @ [e] \<rparr>"

definition emit :: "effect list \<Rightarrow> system \<Rightarrow> system" where
  "emit fx y = render (foldl perform y fx)"

fun nth_opt :: "'a list \<Rightarrow> nat \<Rightarrow> 'a option" where
  "nth_opt [] n = None"
| "nth_opt (x # xs) 0 = Some x"
| "nth_opt (x # xs) (Suc n) = nth_opt xs n"

definition drop_nth :: "nat \<Rightarrow> 'a list \<Rightarrow> 'a list" where
  "drop_nth n xs = take n xs @ drop (Suc n) xs"

fun is_callback :: "effect \<Rightarrow> bool" where
  "is_callback (OnDocumentsGenerated g) = True"
| "is_callback e = False"

text \<open>
  What can happen to the page: the user's actions on the mounted components, and the
  settling of the \<open>n\<close>-th request in flight with an outcome. Buttons are not taken to be
  disabled: a handler may run whenever its component is mounted, which admits every run of
  the page and more. A handler whose instance is gone still performs its effects, and its
  \<open>setState\<close> calls are dropped; the generation handlers call the parent inside a state
  updater, which React may or may not run for a component that is gone, so the event says
  which (\<open>runs\<close>).
\<close>

datatype event =
    FileChange "browser_file list option" slot
  | Drop "browser_file list option" slot
  | Drag drag_event slot
  | ClickAnalyze
  | ClickGenerateResume format
  | ClickGenerateCoverLetter format
  | EditRecipient string
  | EditSubject string
  | EditBody string
  | ClickSend
  | ClickReset
  | AnalyzeSettled nat "analysis_data fetch_outcome"
  | ResumeSettled nat "nat list fetch_outcome" bool
  | CoverSettled nat "nat list fetch_outcome" bool
  | SendSettled nat "string option fetch_outcome"

definition on_upload :: "(upload_state \<Rightarrow> upload_state) \<Rightarrow> system \<Rightarrow> system" where
  "on_upload k y = (case upload y of None \<Rightarrow> y | Some (i, s) \<Rightarrow> y\<lparr> upload := Some (i, k s) \<rparr>)"

definition on_email :: "(email_state \<Rightarrow> email_state) \<Rightarrow> system \<Rightarrow> system" where
  "on_email k y = (case email y of None \<Rightarrow> y | Some (i, s) \<Rightarrow> y\<lparr> email := Some (i, k s) \<rparr>)"

definition click_analyze :: "system \<Rightarrow> system" where
  "click_analyze y =
     (case upload y of
        None \<Rightarrow> y
      | Some (i, s) \<Rightarrow>
          (let (s', fx) = handleAnalyze_start s in
           emit fx (y\<lparr> upload := Some (i, s'),
                      inflight := inflight y @
                        (case (fu_resumeFile s, fu_jobFile s) of
                           (Some r, Some j) \<Rightarrow> [PAnalyze i r j]
                         | _ \<Rightarrow> []) \<rparr>)))"

definition click_generate_resume :: "format \<Rightarrow> system \<Rightarrow> system" where
  "click_generate_resume f y =
     (case docgen y of
        None \<Rightarrow> y
      | Some (i, s) \<Rightarrow>
          (let (s', fx) = handleGenerateResume_start (docgen_props_of (home y)) f s in
           emit fx (y\<lparr> docgen := Some (i, s'),
                      inflight := inflight y @
                        (if fx = [] then [] else [PResume i f (dg_coverPath s)]) \<rparr>)))"

definition click_generate_cover :: "format \<Rightarrow> system \<Rightarrow> system" where
  "click_generate_cover f y =
     (case docgen y of
        None \<Rightarrow> y
      | Some (i, s) \<Rightarrow>
          (let (s', fx) = handleGenerateCoverLetter_start (docgen_props_of (home y)) f s in
           emit fx (y\<lparr> docgen := Some (i, s'),
                      inflight := inflight y @
                        (if fx = [] then [] else [PCover i f (dg_resumePath s)]) \<rparr>)))"

definition click_send :: "system \<Rightarrow> system" where
  "click_send y =
     (case email y of
        None \<Rightarrow> y
      | Some (i, s) \<Rightarrow>
          (let (s', fx) = handleSendEmail_start (email_props_of (home y)) s in
           emit fx (y\<lparr> email := Some (i, s'),
                      inflight := inflight y @ (if fx = [] then [] else [PSend i]) \<rparr>)))"

definition settle_analyze ::
  "nat \<Rightarrow> nat \<Rightarrow> browser_file \<Rightarrow> browser_file \<Rightarrow> analysis_data fetch_outcome \<Rightarrow> system \<Rightarrow> system" where
  "settle_analyze n i r j out y =
     (let y' = y\<lparr> inflight := drop_nth n (inflight y) \<rparr> in
      case upload y of
        Some (k, s) \<Rightarrow>
          (if k = i then
             (let (s', fx) = handleAnalyze_finish r j out s in emit fx (y'\<lparr> upload := Some (k, s') \<rparr>))
           else emit (snd (handleAnalyze_finish r j out upload_init)) y')
      | None \<Rightarrow> emit (snd (handleAnalyze_finish r j out upload_init)) y')"

definition settle_docgen ::
  "nat \<Rightarrow> nat \<Rightarrow> (docgen_state \<Rightarrow> docgen_state \<times> effect list) \<Rightarrow> bool \<Rightarrow> system \<Rightarrow> system" where
  "settle_docgen n i finish runs y =
     (let y' = y\<lparr> inflight := drop_nth n (inflight y) \<rparr>;
          gone = (let fx = snd (finish docgen_init) in
                  emit (if runs then fx else filter (\<lambda>e. \<not> is_callback e) fx) y')
      in case docgen y of
           Some (k, s) \<Rightarrow>
             (if k = i then
                (let (s', fx) = finish s in emit fx (y'\<lparr> docgen := Some (k, s') \<rparr>))
              else gone)
         | None \<Rightarrow> gone)"

definition settle_send :: "nat \<Rightarrow> nat \<Rightarrow> string option fetch_outcome \<Rightarrow> system \<Rightarrow> system" where
  "settle_send n i out y =
     (let y' = y\<lparr> inflight := drop_nth n (inflight y) \<rparr> in
      case email y of
        Some (k, s) \<Rightarrow>
          (if k = i then
             (let (s', fx) = handleSendEmail_finish out s in emit fx (y'\<lparr> email := Some (k, s') \<rparr>))
           else y')
      | None \<Rightarrow> y')"

fun react :: "system \<Rightarrow> event \<Rightarrow> system" where
  "react y (FileChange files t) = on_upload (handleFileChange files t) y"
| "react y (Drop files t) = on_upload (handleDrop files t) y"
| "react y (Drag e t) = on_upload (handleDrag e t) y"
| "react y ClickAnalyze = click_analyze y"
| "react y (ClickGenerateResume f) = click_generate_resume f y"
| "react y (ClickGenerateCoverLetter f) = click_generate_cover f y"
| "react y (EditRecipient v) = on_email (\<lambda>s. s\<lparr> recipientEmail := v \<rparr>) y"
| "react y (EditSubject v) = on_email (\<lambda>s. s\<lparr> es_subject := v \<rparr>) y"
| "react y (EditBody v) = on_email (\<lambda>s. s\<lparr> es_body := v \<rparr>) y"
| "react y ClickSend = click_send y"
| "react y ClickReset =
     (if step (home y) = Results then render (y\<lparr> home := handleReset (home y) \<rparr>) else y)"
| "react y (AnalyzeSettled n out) =
     (case nth_opt (inflight y) n of
        Some (PAnalyze i r j) \<Rightarrow> settle_analyze n i r j out y
      | _ \<Rightarrow> y)"
| "react y (ResumeSettled n out runs) =
     (case nth_opt (inflight y) n of
        Some (PResume i f cover) \<Rightarrow>
          settle_docgen n i (handleGenerateResume_finish (docgen_props_of (home y)) cover f out) runs y
      | _ \<Rightarrow> y)"
| "react y (CoverSettled n out runs) =
     (case nth_opt (inflight y) n of
        Some (PCover i f res) \<Rightarrow>
          settle_docgen n i (handleGenerateCoverLetter_finish (docgen_props_of (home y)) res f out) runs y
      | _ \<Rightarrow> y)"
| "react y (SendSettled n out) =
     (case nth_opt (inflight y) n of
        Some (PSend i) \<Rightarrow> settle_send n i out y
      | _ \<Rightarrow> y)"

definition run :: "event list \<Rightarrow> system" where
  "run evs = foldl react system_init evs"

subsection \<open>Paths of generated documents\<close>

text \<open>
  Modelled from the spec: the server that receives \<open>resume_path\<close> and
  \<open>cover_letter_path\<close> is not among the sources. The spec asks that a path passed to the
  email endpoint resolve within the artifact directory. A path is relative to the backend
  directory, as the comment in \<open>handleGenerateResume\<close> says; it is split at \<open>/\<close>, \<open>.\<close>
  and empty segments are dropped, \<open>..\<close> removes the segment before it, and a path that
  climbs above its starting point resolves to nothing.
\<close>

fun split_on :: "char \<Rightarrow> string \<Rightarrow> string list" where
  "split_on c [] = [[]]"
| "split_on c (x # xs) =
     (if x = c then [] # split_on c xs
      else (case split_on c xs of w # ws \<Rightarrow> (x # w) # ws | [] \<Rightarrow> [[x]]))"

fun resolve :: "string list \<Rightarrow> string list \<Rightarrow> string list option" where
  "resolve st [] = Some (rev st)"
| "resolve st (seg # segs) =
     (if seg = [] \<or> seg = ''.'' then resolve st segs
      else if seg = ''..'' then (case st of [] \<Rightarrow> None | _ # st' \<Rightarrow> resolve st' segs)
      else resolve (seg # st) segs)"

definition resolves_within :: "string \<Rightarrow> string \<Rightarrow> bool" where
  "resolves_within dir path =
     (case path of
        [] \<Rightarrow> False
      | c # _ \<Rightarrow>
          c \<noteq> CHR ''/'' \<and>
          (case resolve [] (split_on (CHR ''/'') path) of
             Some (d # _ # _) \<Rightarrow> d = dir
           | _ \<Rightarrow> False))"

text \<open>
  The values a path cell can hold: the empty string it starts with, or the path of a
  generated document. They make up the invariant of the page.
\<close>

definition valid_resume :: "string \<Rightarrow> bool" where
  "valid_resume p =
     (p = [] \<or> p = backendPath (resume_filename Docx) \<or> p = backendPath (resume_filename Pdf))"

definition valid_cover :: "string \<Rightarrow> bool" where
  "valid_cover p =
     (p = [] \<or> p = backendPath (cover_letter_filename Docx)
      \<or> p = backendPath (cover_letter_filename Pdf))"

fun effect_ok :: "effect \<Rightarrow> bool" where
  "effect_ok (HttpPost u (SendEmailJson r)) =
     (resume_path r \<noteq> [] \<and> valid_resume (resume_path r)
      \<and> cover_letter_path r \<noteq> [] \<and> valid_cover (cover_letter_path r))"
| "effect_ok (OnDocumentsGenerated g) =
     (valid_resume (resumePath g) \<and> valid_cover (coverLetterPath g))"
| "effect_ok e = True"

fun pending_ok :: "pending \<Rightarrow> bool" where
  "pending_ok (PResume i f c) = valid_cover c"
| "pending_ok (PCover i f r) = valid_resume r"
| "pending_ok q = True"

definition paths_inv :: "system \<Rightarrow> bool" where
  "paths_inv y =
     (valid_resume (resumePath (generatedDocs (home y)))
      \<and> valid_cover (coverLetterPath (generatedDocs (home y)))
      \<and> (case docgen y of
            None \<Rightarrow> True
          | Some (i, s) \<Rightarrow> valid_resume (dg_resumePath s) \<and> valid_cover (dg_coverPath s))
      \<and> list_all pending_ok (inflight y)
      \<and> list_all effect_ok (trace y))"

subsection \<open>The error a refused request leaves\<close>

text \<open>
  The text the error cell is to hold after a response that is not ok, case by case: the
  message of what reading the body threw; the handler's default when the body has no
  detail or a falsy one; the detail itself when it is a non-empty string; and for a detail
  that is no string what JavaScript makes of it.
\<close>

fun expected_error :: "json option settled \<Rightarrow> string \<Rightarrow> string" where
  "expected_error (Rejected (Error m)) dflt = m"
| "expected_error (Rejected NonError) dflt = ''An error occurred''"
| "expected_error (Fulfilled None) dflt = dflt"
| "expected_error (Fulfilled (Some JNull)) dflt = dflt"
| "expected_error (Fulfilled (Some (JBool b))) dflt = (if b then ''true'' else dflt)"
| "expected_error (Fulfilled (Some (JNum nonzero shown))) dflt = (if nonzero then shown else dflt)"
| "expected_error (Fulfilled (Some (JStr d))) dflt = (if d = [] then dflt else d)"
| "expected_error (Fulfilled (Some (JArr xs))) dflt = to_string (JArr xs)"
| "expected_error (Fulfilled (Some JObj)) dflt = ''[object Object]''"

subsection \<open>A sample session\<close>

definition sample_resume :: browser_file where
  "sample_resume =
     \<lparr> file_name = ''cv.pdf'', file_type = ''application/pdf'', file_bytes = [37, 80, 68, 70] \<rparr>"

definition sample_job :: browser_file where
  "sample_job =
     \<lparr> file_name = ''job.pdf'', file_type = ''application/pdf'', file_bytes = [37, 80, 68, 70] \<rparr>"

definition sample_png :: browser_file where
  "sample_png =
     \<lparr> file_name = ''cv.png'', file_type = ''image/png'', file_bytes = [137, 80, 78, 71] \<rparr>"

definition sample_data :: analysis_data where
  "sample_data =
     \<lparr> job_analysis = Some \<lparr> job_title = Some ''Data Engineer'', company_name = Some ''Acme'',
                              contact_email = Some ''jobs@acme.test'' \<rparr>,
       resume_analysis = Some \<lparr> candidate_name = Some ''Ada'' \<rparr> \<rparr>"

text \<open>A response with \<open>ok\<close> true and a readable body, and one with \<open>ok\<close> false and a
  \<open>detail\<close>.\<close>

definition good :: "'a \<Rightarrow> 'a fetch_outcome" where
  "good x = Response \<lparr> ok = True, error_detail = Fulfilled None, payload = Fulfilled x \<rparr>"

definition refusal :: "json option \<Rightarrow> 'a response" where
  "refusal d = \<lparr> ok = False, error_detail = Fulfilled d, payload = Rejected NonError \<rparr>"

text \<open>
  Both documents requested at once, as the spec allows: the cover letter is generated, then
  the request for the resume is refused.
\<close>

definition interleaved_session :: "event list" where
  "interleaved_session =
     [FileChange (Some [sample_resume]) ResumeSlot,
      Drop (Some [sample_job]) JobSlot,
      ClickAnalyze,
      AnalyzeSettled 0 (good sample_data),
      ClickGenerateResume Docx,
      ClickGenerateCoverLetter Pdf,
      CoverSettled 1 (good [4, 5]) True,
      ResumeSettled 0 (Response (refusal (Some (JStr ''Unsupported format'')))) True]"

definition sample_session :: "event list" where
  "sample_session =
     [FileChange (Some [sample_resume]) ResumeSlot,
      Drop (Some [sample_job]) JobSlot,
      ClickAnalyze,
      AnalyzeSettled 0 (good sample_data),
      ClickGenerateResume Docx,
      ResumeSettled 0 (good [1, 2, 3]) True,
      ClickGenerateCoverLetter Pdf,
      CoverSettled 0 (good [4, 5]) True,
      EditBody ''Please see the attachments.'',
      ClickSend]"

definition sample_request :: send_email_request where
  "sample_request =
     \<lparr> recipient_email = ''jobs@acme.test'',
       subject = ''Application for Data Engineer - Ada'',
       body = ''Please see the attachments.'',
       resume_path = ''generated/latest_resume.docx'',
       cover_letter_path = ''generated/latest_cover_letter.pdf'' \<rparr>"

definition sample_props :: email_props where
  "sample_props =
     \<lparr> contactEmail = Some ''jobs@acme.test'', jobTitle = ''Data Engineer'',
       companyName = Some ''Acme'', candidateName = Some ''Ada'',
       ep_resumePath = ''generated/latest_resume.docx'', ep_coverLetterPath = [] \<rparr>"

text \<open>Props with a candidate name that is the empty string, which the type
  \<open>string | null\<close> admits.\<close>

definition nameless_props :: email_props where
  "nameless_props =
     \<lparr> contactEmail = None, jobTitle = ''Data Engineer'', companyName = None,
       candidateName = Some [], ep_resumePath = [], ep_coverLetterPath = [] \<rparr>"

definition sample_docgen_props :: docgen_props where
  "sample_docgen_props =
     \<lparr> dp_resumeFile = Some sample_resume, dp_jobDescriptionFile = Some sample_job,
       dp_onDocumentsGenerated = True \<rparr>"

subsection \<open>The artifact store\<close>

text \<open>
  Modelled from the spec: the document generator of the server, which writes the files,
  is not among the sources; the client only names the file it downloads (the comment there
  reads "Backend now uses fixed filename"). The spec has the store as a local directory
  holding at most one file per kind and format, each generation overwriting the file of its
  kind and format. The directory is a list of named files; writing a file removes the
  entry of that name and adds the new one.
\<close>

datatype kind = Resume | CoverLetter

definition artifact_name :: "kind \<Rightarrow> format \<Rightarrow> string" where
  "artifact_name k f = (case k of Resume \<Rightarrow> resume_filename f | CoverLetter \<Rightarrow> cover_letter_filename f)"

type_synonym store = "(string \<times> nat list) list"

definition write_artifact :: "string \<Rightarrow> nat list \<Rightarrow> store \<Rightarrow> store" where
  "write_artifact name content st = (name, content) # filter (\<lambda>e. fst e \<noteq> name) st"

definition generate :: "kind \<Rightarrow> format \<Rightarrow> nat list \<Rightarrow> store \<Rightarrow> store" where
  "generate k f content st = write_artifact (artifact_name k f) content st"

fun generate_all :: "(kind \<times> format \<times> nat list) list \<Rightarrow> store \<Rightarrow> store" where
  "generate_all [] st = st"
| "generate_all ((k, f, content) # gs) st = generate_all gs (generate k f content st)"

definition files_named :: "string \<Rightarrow> store \<Rightarrow> nat list list" where
  "files_named name st = map snd (filter (\<lambda>e. fst e = name) st)"

subsection \<open>The skill gap\<close>

text \<open>
  Modelled from the spec: the skill analyser of the server (\<open>compute_gap\<close>) is not among
  the sources; the client only displays the lists and the percentage it is sent. The spec
  gives a local case-insensitive comparison of the required skills with the resume's
  skills, and the percentage \<open>round(100 * |matching| / max(1, |matching| + |missing|))\<close>
  clamped to 0..100. A required skill is matching when the resume has it up to the case of
  its letters, and missing otherwise; the preferred skills are taken and not compared
  (with no required and no resume skills all three lists are empty, whatever is
  preferred), and the comparison finds no partial matches. The rounding is to the nearest
  integer, a half going up, computed in integers.
\<close>

record SkillGap =
  matching_skills :: "string list"
  partial_skills :: "string list"
  missing_skills :: "string list"
  match_percentage :: int

definition lower_char :: "char \<Rightarrow> char" where
  "lower_char c =
     (let n = (of_char c :: nat) in if 65 \<le> n \<and> n \<le> 90 then char_of (n + 32) else c)"

definition lower_str :: "string \<Rightarrow> string" where
  "lower_str s = map lower_char s"

definition has_skill :: "string list \<Rightarrow> string \<Rightarrow> bool" where
  "has_skill resume_skills s = (lower_str s \<in> set (map lower_str resume_skills))"

definition match_percentage_of :: "nat \<Rightarrow> nat \<Rightarrow> int" where
  "match_percentage_of m k =
     (let d = int (max 1 (m + k));
          r = (200 * int m + d) div (2 * d)
      in max 0 (min 100 r))"

definition compute_gap :: "string list \<Rightarrow> string list \<Rightarrow> string list \<Rightarrow> SkillGap" where
  "compute_gap required_skills preferred_skills resume_skills =
     (let matching = filter (has_skill resume_skills) required_skills;
          missing = filter (\<lambda>s. \<not> has_skill resume_skills s) required_skills
      in \<lparr> matching_skills = matching, partial_skills = [], missing_skills = missing,
           match_percentage = match_percentage_of (length matching) (length missing) \<rparr>)"

text \<open>
  Modelled from the spec: the aggregator of the server is not among the sources. The spec
  has it either trust the AI's own \<open>skill_gap\<close> directly (pass-through) or, when the AI's
  output lacks that field, compare locally; the percentage is the formula above in both
  cases. The AI's lists are an input, and nothing is known of them.
\<close>

record ai_skill_gap =
  ai_matching :: "string list"
  ai_partial :: "string list"
  ai_missing :: "string list"

definition skill_gap_of ::
  "ai_skill_gap option \<Rightarrow> string list \<Rightarrow> string list \<Rightarrow> string list \<Rightarrow> SkillGap" where
  "skill_gap_of ai required_skills preferred_skills resume_skills =
     (case ai of
        Some a \<Rightarrow>
          \<lparr> matching_skills = ai_matching a, partial_skills = ai_partial a,
            missing_skills = ai_missing a,
            match_percentage = match_percentage_of (length (ai_matching a)) (length (ai_missing a)) \<rparr>
      | None \<Rightarrow> compute_gap required_skills preferred_skills resume_skills)"


subsection \<open>The AI client's retries\<close>

text \<open>
  Modelled from the spec: the AI client of the server (\<open>analyze\<close>) is not among the
  sources. The spec has it retry a transient network failure at most twice, with
  exponential backoff, before it fails with \<open>AIServiceUnavailable\<close>, and fail at once
  with \<open>MalformedAIResponse\<close> on a reply it cannot parse. The upstream service is a
  function from the number of the call to its reply; the client returns its result and
  the delays it waited, one before each retry, the first of them \<open>b\<close>.
\<close>

datatype 'a upstream_reply = Timeout | Garbled | Answer 'a

datatype ai_error = AIServiceUnavailable | MalformedAIResponse

definition max_retries :: nat where
  "max_retries = 2"

fun analyze_attempt ::
  "nat \<Rightarrow> nat \<Rightarrow> (nat \<Rightarrow> 'a upstream_reply) \<Rightarrow> nat \<Rightarrow> (ai_error + 'a) \<times> nat list" where
  "analyze_attempt b i up 0 =
     (case up i of
        Timeout \<Rightarrow> (Inl AIServiceUnavailable, [])
      | Garbled \<Rightarrow> (Inl MalformedAIResponse, [])
      | Answer a \<Rightarrow> (Inr a, []))"
| "analyze_attempt b i up (Suc left) =
     (case up i of
        Timeout \<Rightarrow> (let (r, ds) = analyze_attempt b (Suc i) up left in (r, b * 2 ^ i # ds))
      | Garbled \<Rightarrow> (Inl MalformedAIResponse, [])
      | Answer a \<Rightarrow> (Inr a, []))"

definition analyze :: "nat \<Rightarrow> (nat \<Rightarrow> 'a upstream_reply) \<Rightarrow> (ai_error + 'a) \<times> nat list" where
  "analyze b up = analyze_attempt b 0 up max_retries"

text \<open>The calls made to the upstream service: one, and one more after each delay.\<close>

definition upstream_calls :: "(ai_error + 'a) \<times> nat list \<Rightarrow> nat" where
  "upstream_calls res = Suc (length (snd res))"

text \<open>Sample upstream services: one that always times out, one that times out once and then
  sends a reply that cannot be parsed.\<close>

definition always_timeout :: "nat \<Rightarrow> string upstream_reply" where
  "always_timeout i = Timeout"

definition timeout_then_garbled :: "nat \<Rightarrow> string upstream_reply" where
  "timeout_then_garbled i = (if i = 0 then Timeout else Garbled)"

section \<open>Properties\<close>

subsection \<open>The invariant of the page\<close>

lemma valid_empty [simp]: "valid_resume []" "valid_cover []"
  by (simp_all add: valid_resume_def valid_cover_def)

lemma valid_backend [simp]:
  "valid_resume (backendPath (resume_filename f))" "valid_cover (backendPath (cover_letter_filename f))"
  by (cases f; simp add: valid_resume_def valid_cover_def)+

lemma inv_render: "paths_inv y \<Longrightarrow> paths_inv (render y)"
  by (auto simp: paths_inv_def render_def render_upload_def render_docgen_def render_email_def
      docgen_init_def split: option.splits)

lemma inv_perform: "paths_inv y \<Longrightarrow> effect_ok e \<Longrightarrow> paths_inv (perform y e)"
  by (cases "(y, e)" rule: perform.cases)
     (auto simp: paths_inv_def handleAnalysisComplete_def setGeneratedDocs_def split: option.splits)

lemma inv_foldl_perform: "paths_inv y \<Longrightarrow> list_all effect_ok fx \<Longrightarrow> paths_inv (foldl perform y fx)"
  by (induction fx arbitrary: y) (simp_all add: inv_perform)

lemma inv_emit: "paths_inv y \<Longrightarrow> list_all effect_ok fx \<Longrightarrow> paths_inv (emit fx y)"
  by (simp add: emit_def inv_render inv_foldl_perform)


lemma nth_opt_mem: "nth_opt xs n = Some x \<Longrightarrow> x \<in> set xs"
  by (induction xs n rule: nth_opt.induct) auto

lemma list_all_drop_nth: "list_all P xs \<Longrightarrow> list_all P (drop_nth n xs)"
  by (auto simp: drop_nth_def list_all_iff dest: in_set_takeD in_set_dropD)

lemma inv_on_upload: "paths_inv y \<Longrightarrow> paths_inv (on_upload k y)"
  by (auto simp: paths_inv_def on_upload_def split: option.splits)

lemma inv_on_email: "paths_inv y \<Longrightarrow> paths_inv (on_email k y)"
  by (auto simp: paths_inv_def on_email_def split: option.splits)

lemma analyze_start_ok: "list_all effect_ok (snd (handleAnalyze_start s))"
  by (auto simp: handleAnalyze_start_def split: option.splits)

lemma analyze_finish_ok: "list_all effect_ok (snd (handleAnalyze_finish r j out s))"
  by (auto simp: handleAnalyze_finish_def analyze_failed_def
      split: fetch_outcome.splits settled.splits)

lemma resume_start_ok:
  "list_all effect_ok (snd (handleGenerateResume_start p f s))"
  "dg_resumePath (fst (handleGenerateResume_start p f s)) = dg_resumePath s"
  "dg_coverPath (fst (handleGenerateResume_start p f s)) = dg_coverPath s"
  by (auto simp: handleGenerateResume_start_def split: option.splits)

lemma cover_start_ok:
  "list_all effect_ok (snd (handleGenerateCoverLetter_start p f s))"
  "dg_resumePath (fst (handleGenerateCoverLetter_start p f s)) = dg_resumePath s"
  "dg_coverPath (fst (handleGenerateCoverLetter_start p f s)) = dg_coverPath s"
  by (auto simp: handleGenerateCoverLetter_start_def split: option.splits)

lemma resume_finish_ok:
  assumes "valid_cover c"
  shows "list_all effect_ok (snd (handleGenerateResume_finish p c f out s))"
    and "valid_resume (dg_resumePath s) \<Longrightarrow> valid_resume (dg_resumePath (fst (handleGenerateResume_finish p c f out s)))"
    and "dg_coverPath (fst (handleGenerateResume_finish p c f out s)) = dg_coverPath s"
  using assms
  by (auto simp: handleGenerateResume_finish_def resume_failed_def Let_def
      split: fetch_outcome.splits settled.splits)

lemma cover_finish_ok:
  assumes "valid_resume c"
  shows "list_all effect_ok (snd (handleGenerateCoverLetter_finish p c f out s))"
    and "valid_cover (dg_coverPath s) \<Longrightarrow> valid_cover (dg_coverPath (fst (handleGenerateCoverLetter_finish p c f out s)))"
    and "dg_resumePath (fst (handleGenerateCoverLetter_finish p c f out s)) = dg_resumePath s"
  using assms
  by (auto simp: handleGenerateCoverLetter_finish_def cover_failed_def Let_def
      split: fetch_outcome.splits settled.splits)

lemma send_start_ok:
  assumes "valid_resume (ep_resumePath p)" "valid_cover (ep_coverLetterPath p)"
  shows "list_all effect_ok (snd (handleSendEmail_start p s))"
  using assms by (auto simp: handleSendEmail_start_def)

lemma send_finish_ok: "snd (handleSendEmail_finish out s) = []"
  by (auto simp: handleSendEmail_finish_def send_failed_def
      split: fetch_outcome.splits settled.splits)

lemma email_props_paths:
  "ep_resumePath (email_props_of h) = resumePath (generatedDocs h)"
  "ep_coverLetterPath (email_props_of h) = coverLetterPath (generatedDocs h)"
  by (simp_all add: email_props_of_def Let_def)

lemma inv_click_analyze: "paths_inv y \<Longrightarrow> paths_inv (click_analyze y)"
proof (cases "upload y")
  case None
  assume "paths_inv y" with None show ?thesis by (simp add: click_analyze_def)
next
  case (Some a)
  assume inv: "paths_inv y"
  obtain i s where a: "a = (i, s)" by (cases a)
  obtain s' fx where st: "handleAnalyze_start s = (s', fx)" by (cases "handleAnalyze_start s")
  have fx: "list_all effect_ok fx" using analyze_start_ok [of s] st by simp
  let ?y = "y\<lparr> upload := Some (i, s'),
                inflight := inflight y @
                  (case (fu_resumeFile s, fu_jobFile s) of
                     (Some r, Some j) \<Rightarrow> [PAnalyze i r j]
                   | _ \<Rightarrow> []) \<rparr>"
  have "paths_inv ?y" using inv by (auto simp: paths_inv_def split: option.splits)
  then have "paths_inv (emit fx ?y)" using fx by (rule inv_emit)
  then show ?thesis using Some a st by (simp add: click_analyze_def)
qed

lemma inv_click_generate_resume: "paths_inv y \<Longrightarrow> paths_inv (click_generate_resume f y)"
proof (cases "docgen y")
  case None
  assume "paths_inv y" with None show ?thesis by (simp add: click_generate_resume_def)
next
  case (Some a)
  assume inv: "paths_inv y"
  obtain i s where a: "a = (i, s)" by (cases a)
  let ?p = "docgen_props_of (home y)"
  obtain s' fx where st: "handleGenerateResume_start ?p f s = (s', fx)"
    by (cases "handleGenerateResume_start ?p f s")
  have fx: "list_all effect_ok fx" and s': "dg_resumePath s' = dg_resumePath s" "dg_coverPath s' = dg_coverPath s"
    using resume_start_ok [of ?p f s] st by simp_all
  let ?y = "y\<lparr> docgen := Some (i, s'),
                inflight := inflight y @ (if fx = [] then [] else [PResume i f (dg_coverPath s)]) \<rparr>"
  have "paths_inv ?y" using inv Some a s' by (auto simp: paths_inv_def)
  then have "paths_inv (emit fx ?y)" using fx by (rule inv_emit)
  then show ?thesis using Some a st by (simp add: click_generate_resume_def)
qed

lemma inv_click_generate_cover: "paths_inv y \<Longrightarrow> paths_inv (click_generate_cover f y)"
proof (cases "docgen y")
  case None
  assume "paths_inv y" with None show ?thesis by (simp add: click_generate_cover_def)
next
  case (Some a)
  assume inv: "paths_inv y"
  obtain i s where a: "a = (i, s)" by (cases a)
  let ?p = "docgen_props_of (home y)"
  obtain s' fx where st: "handleGenerateCoverLetter_start ?p f s = (s', fx)"
    by (cases "handleGenerateCoverLetter_start ?p f s")
  have fx: "list_all effect_ok fx" and s': "dg_resumePath s' = dg_resumePath s" "dg_coverPath s' = dg_coverPath s"
    using cover_start_ok [of ?p f s] st by simp_all
  let ?y = "y\<lparr> docgen := Some (i, s'),
                inflight := inflight y @ (if fx = [] then [] else [PCover i f (dg_resumePath s)]) \<rparr>"
  have "paths_inv ?y" using inv Some a s' by (auto simp: paths_inv_def)
  then have "paths_inv (emit fx ?y)" using fx by (rule inv_emit)
  then show ?thesis using Some a st by (simp add: click_generate_cover_def)
qed

lemma inv_click_send: "paths_inv y \<Longrightarrow> paths_inv (click_send y)"
proof (cases "email y")
  case None
  assume "paths_inv y" with None show ?thesis by (simp add: click_send_def)
next
  case (Some a)
  assume inv: "paths_inv y"
  obtain i s where a: "a = (i, s)" by (cases a)
  let ?p = "email_props_of (home y)"
  obtain s' fx where st: "handleSendEmail_start ?p s = (s', fx)"
    by (cases "handleSendEmail_start ?p s")
  have "valid_resume (ep_resumePath ?p)" "valid_cover (ep_coverLetterPath ?p)"
    using inv by (simp_all add: email_props_paths paths_inv_def)
  then have fx: "list_all effect_ok fx" using send_start_ok [of ?p s] st by simp
  let ?y = "y\<lparr> email := Some (i, s'), inflight := inflight y @ (if fx = [] then [] else [PSend i]) \<rparr>"
  have "paths_inv ?y" using inv by (auto simp: paths_inv_def)
  then have "paths_inv (emit fx ?y)" using fx by (rule inv_emit)
  then show ?thesis using Some a st by (simp add: click_send_def)
qed

lemma inv_drop_inflight: "paths_inv y \<Longrightarrow> paths_inv (y\<lparr> inflight := drop_nth n (inflight y) \<rparr>)"
  by (simp add: paths_inv_def list_all_drop_nth)

lemma inv_set_upload: "paths_inv y \<Longrightarrow> paths_inv (y\<lparr> upload := u \<rparr>)"
  by (simp add: paths_inv_def)

lemma inv_set_email: "paths_inv y \<Longrightarrow> paths_inv (y\<lparr> email := u \<rparr>)"
  by (simp add: paths_inv_def)


lemma inv_settle_analyze: "paths_inv y \<Longrightarrow> paths_inv (settle_analyze n i r j out y)"
proof -
  assume inv: "paths_inv y"
  let ?y' = "y\<lparr> inflight := drop_nth n (inflight y) \<rparr>"
  have y': "paths_inv ?y'" using inv by (rule inv_drop_inflight)
  have gone: "paths_inv (emit (snd (handleAnalyze_finish r j out upload_init)) ?y')"
    using y' analyze_finish_ok by (rule inv_emit)
  show ?thesis
  proof (cases "upload y")
    case None
    then show ?thesis using gone by (simp add: settle_analyze_def Let_def)
  next
    case (Some a)
    obtain k s where a: "a = (k, s)" by (cases a)
    obtain s' fx where st: "handleAnalyze_finish r j out s = (s', fx)"
      by (cases "handleAnalyze_finish r j out s")
    have fx: "list_all effect_ok fx" using analyze_finish_ok [of r j out s] st by simp
    have "paths_inv (?y'\<lparr> upload := Some (k, s') \<rparr>)" using y' by (rule inv_set_upload)
    then have "paths_inv (emit fx (?y'\<lparr> upload := Some (k, s') \<rparr>))" using fx by (rule inv_emit)
    then show ?thesis using Some a st gone by (auto simp add: settle_analyze_def Let_def)
  qed
qed

lemma list_all_filter: "list_all P xs \<Longrightarrow> list_all P (filter Q xs)"
  by (simp add: list_all_iff)

lemma inv_settle_docgen:
  assumes inv: "paths_inv y"
    and fx_ok: "\<And>s. list_all effect_ok (snd (finish s))"
    and res: "\<And>s. valid_resume (dg_resumePath s) \<Longrightarrow> valid_resume (dg_resumePath (fst (finish s)))"
    and cov: "\<And>s. valid_cover (dg_coverPath s) \<Longrightarrow> valid_cover (dg_coverPath (fst (finish s)))"
  shows "paths_inv (settle_docgen n i finish runs y)"
proof -
  let ?y' = "y\<lparr> inflight := drop_nth n (inflight y) \<rparr>"
  let ?fx0 = "snd (finish docgen_init)"
  let ?gone = "emit (if runs then ?fx0 else filter (\<lambda>e. \<not> is_callback e) ?fx0) ?y'"
  have y': "paths_inv ?y'" using inv by (rule inv_drop_inflight)
  have "list_all effect_ok (if runs then ?fx0 else filter (\<lambda>e. \<not> is_callback e) ?fx0)"
    using fx_ok [of docgen_init] by (simp add: list_all_filter)
  with y' have gone: "paths_inv ?gone" by (rule inv_emit)
  show ?thesis
  proof (cases "docgen y")
    case None
    then show ?thesis using gone by (simp add: settle_docgen_def Let_def)
  next
    case (Some a)
    obtain k s where a: "a = (k, s)" by (cases a)
    obtain s' fx where st: "finish s = (s', fx)" by (cases "finish s")
    have fx: "list_all effect_ok fx" using fx_ok [of s] st by simp
    have "valid_resume (dg_resumePath s)" "valid_cover (dg_coverPath s)"
      using inv Some a by (simp_all add: paths_inv_def)
    then have "valid_resume (dg_resumePath s')" "valid_cover (dg_coverPath s')"
      using res [of s] cov [of s] st by simp_all
    then have "paths_inv (?y'\<lparr> docgen := Some (k, s') \<rparr>)"
      using y' by (simp add: paths_inv_def)
    then have "paths_inv (emit fx (?y'\<lparr> docgen := Some (k, s') \<rparr>))" using fx by (rule inv_emit)
    then show ?thesis using Some a st gone by (auto simp add: settle_docgen_def Let_def)
  qed
qed

lemma inv_settle_send: "paths_inv y \<Longrightarrow> paths_inv (settle_send n i out y)"
proof -
  assume inv: "paths_inv y"
  let ?y' = "y\<lparr> inflight := drop_nth n (inflight y) \<rparr>"
  have y': "paths_inv ?y'" using inv by (rule inv_drop_inflight)
  show ?thesis
  proof (cases "email y")
    case None
    then show ?thesis using y' by (simp add: settle_send_def Let_def)
  next
    case (Some a)
    obtain k s where a: "a = (k, s)" by (cases a)
    obtain s' fx where st: "handleSendEmail_finish out s = (s', fx)"
      by (cases "handleSendEmail_finish out s")
    have fx: "list_all effect_ok fx" using send_finish_ok [of out s] st by simp
    have "paths_inv (?y'\<lparr> email := Some (k, s') \<rparr>)" using y' by (rule inv_set_email)
    then have "paths_inv (emit fx (?y'\<lparr> email := Some (k, s') \<rparr>))" using fx by (rule inv_emit)
    then show ?thesis using Some a st y' by (auto simp add: settle_send_def Let_def)
  qed
qed

lemma inv_reset: "paths_inv y \<Longrightarrow> paths_inv (render (y\<lparr> home := handleReset (home y) \<rparr>))"
  by (rule inv_render) (simp add: paths_inv_def handleReset_def)

lemma inv_react: "paths_inv y \<Longrightarrow> paths_inv (react y e)"
proof (cases e)
  case (ResumeSettled n out runs)
  assume inv: "paths_inv y"
  show ?thesis
  proof (cases "nth_opt (inflight y) n")
    case None
    then show ?thesis using inv ResumeSettled by simp
  next
    case (Some q)
    then have "pending_ok q" using inv nth_opt_mem [of "inflight y" n q]
      by (auto simp: paths_inv_def list_all_iff)
    then show ?thesis using inv ResumeSettled Some
      by (cases q) (simp_all add: inv_settle_docgen resume_finish_ok)
  qed
next
  case (CoverSettled n out runs)
  assume inv: "paths_inv y"
  show ?thesis
  proof (cases "nth_opt (inflight y) n")
    case None
    then show ?thesis using inv CoverSettled by simp
  next
    case (Some q)
    then have "pending_ok q" using inv nth_opt_mem [of "inflight y" n q]
      by (auto simp: paths_inv_def list_all_iff)
    then show ?thesis using inv CoverSettled Some
      by (cases q) (simp_all add: inv_settle_docgen cover_finish_ok)
  qed
qed (auto simp: inv_on_upload inv_on_email inv_click_analyze inv_click_generate_resume
       inv_click_generate_cover inv_click_send inv_settle_analyze inv_settle_send inv_reset
     split: option.splits pending.splits)

lemma inv_init: "paths_inv system_init"
  unfolding system_init_def by (rule inv_render) (simp add: paths_inv_def home_init_def)

lemma inv_foldl_react: "paths_inv y \<Longrightarrow> paths_inv (foldl react y evs)"
  by (induction evs arbitrary: y) (simp_all add: inv_react)

lemma inv_run: "paths_inv (run evs)"
  unfolding run_def using inv_init by (rule inv_foldl_react)


subsection \<open>The percentage and the store\<close>

lemma round_div:
  assumes "0 < d"
  shows "round (100 * real m / real_of_int d) = (200 * int m + d) div (2 * d)"
proof -
  have "100 * real m / real_of_int d + 1 / 2
      = real_of_int (200 * int m + d) / real_of_int (2 * d)"
    using assms by (simp add: field_simps)
  then show ?thesis
    unfolding round_def by (simp only: floor_divide_of_int_eq)
qed

lemma match_percentage_of_round:
  "match_percentage_of m k = max 0 (min 100 (round (100 * real m / real (max 1 (m + k)))))"
proof -
  have "round (100 * real m / real_of_int (int (max 1 (m + k))))
      = (200 * int m + int (max 1 (m + k))) div (2 * int (max 1 (m + k)))"
    by (rule round_div) simp
  then show ?thesis by (simp add: match_percentage_of_def Let_def)
qed

lemma match_percentage_of_range: "0 \<le> match_percentage_of m k \<and> match_percentage_of m k \<le> 100"
  by (simp add: match_percentage_of_def Let_def)

lemma match_percentage_of_unclamped:
  "match_percentage_of m k = round (100 * real m / real (max 1 (m + k)))"
proof -
  define d where "d = int (max 1 (m + k))"
  have d: "0 < d" and md: "int m \<le> d" by (simp_all add: d_def)
  have lo: "0 \<le> (200 * int m + d) div (2 * d)"
    using d by (simp add: pos_imp_zdiv_nonneg_iff)
  have "(200 * int m + d) div (2 * d) \<le> (d + 100 * (2 * d)) div (2 * d)"
    by (rule zdiv_mono1) (use d md in linarith)+
  also have "\<dots> = 100" using d by simp
  finally have hi: "(200 * int m + d) div (2 * d) \<le> 100" .
  have "match_percentage_of m k = (200 * int m + d) div (2 * d)"
    using lo hi by (simp add: match_percentage_of_def Let_def d_def)
  also have "\<dots> = round (100 * real m / real_of_int d)"
    using d by (rule round_div [symmetric])
  finally show ?thesis by (simp add: d_def)
qed

lemma distinct_write_artifact:
  "distinct (map fst st) \<Longrightarrow> distinct (map fst (write_artifact n c st))"
  by (auto simp: write_artifact_def distinct_map_filter)

lemma distinct_generate_all:
  "distinct (map fst st) \<Longrightarrow> distinct (map fst (generate_all gs st))"
  by (induction gs st rule: generate_all.induct) (simp_all add: generate_def distinct_write_artifact)

lemma files_named_distinct: "distinct (map fst st) \<Longrightarrow> length (files_named n st) \<le> 1"
  by (induction st) (force simp: files_named_def filter_empty_conv)+

lemma files_named_write: "files_named n (write_artifact n c st) = [c]"
  by (simp add: files_named_def write_artifact_def filter_empty_conv)

lemma artifact_name_inj: "(artifact_name k f = artifact_name k' f') = (k = k' \<and> f = f')"
  by (cases k; cases k'; cases f; cases f')
     (simp_all add: artifact_name_def resume_filename_def cover_letter_filename_def)

lemma analyze_attempt_delays: "length (snd (analyze_attempt b i up n)) \<le> n"
proof (induction n arbitrary: i)
  case 0
  show ?case by (simp split: upstream_reply.splits)
next
  case (Suc n)
  show ?case using Suc.IH [of "Suc i"]
    by (auto split: upstream_reply.splits prod.splits)
qed

lemma analyze_attempt_garbled: "up i = Garbled \<Longrightarrow> analyze_attempt b i up n = (Inl MalformedAIResponse, [])"
  by (cases n) simp_all

subsection \<open>The handlers\<close>


lemma analyze_effects_failed:
  "\<not> ok ra \<Longrightarrow> snd (handleAnalyze (Response ra) u) = snd (handleAnalyze_start u)"
  by (auto simp: handleAnalyze_def handleAnalyze_start_def handleAnalyze_finish_def
      analyze_failed_def split: option.splits settled.splits)

lemma home_passes_no_empty_name:
  "candidateName (email_props_of h) \<noteq> Some [] \<and> contactEmail (email_props_of h) \<noteq> Some []"
proof -
  have "js_or_null x \<noteq> Some []" for x by (cases x) simp_all
  then show ?thesis by (simp add: email_props_of_def Let_def)
qed

lemma email_subject_under_home:
  "es_subject (email_init (email_props_of h))
     = ''Application for '' @ jobTitle (email_props_of h)
       @ (case candidateName (email_props_of h) of None \<Rightarrow> [] | Some c \<Rightarrow> '' - '' @ c)"
  using home_passes_no_empty_name [of h]
  by (cases "candidateName (email_props_of h)") (auto simp: email_init_def)

text \<open>
  What the part of a handler after the response does beyond its own state is settled by
  the outcome and the closure, not by the state it finds; so a handler whose component is
  gone performs the same effects.
\<close>

lemma analyze_finish_effects:
  "snd (handleAnalyze_finish r j out s) = snd (handleAnalyze_finish r j out s')"
  by (simp add: handleAnalyze_finish_def analyze_failed_def
      split: fetch_outcome.splits settled.splits)

lemma resume_finish_effects:
  "snd (handleGenerateResume_finish p c f out s) = snd (handleGenerateResume_finish p c f out s')"
  by (simp add: handleGenerateResume_finish_def resume_failed_def Let_def
      split: fetch_outcome.splits settled.splits)

lemma cover_finish_effects:
  "snd (handleGenerateCoverLetter_finish p c f out s)
     = snd (handleGenerateCoverLetter_finish p c f out s')"
  by (simp add: handleGenerateCoverLetter_finish_def cover_failed_def Let_def
      split: fetch_outcome.splits settled.splits)

text \<open>The edge case of the spec: with no required and no resume skills the three lists
  are empty and the percentage is 0.\<close>

lemma compute_gap_empty:
  "compute_gap [] preferred [] =
     \<lparr> matching_skills = [], partial_skills = [], missing_skills = [], match_percentage = 0 \<rparr>"
  by (simp add: compute_gap_def match_percentage_of_def)

subsection \<open>The retries\<close>

lemma analyze_unfold:
  "analyze b up =
     (case up 0 of
        Timeout \<Rightarrow>
          (case up 1 of
             Timeout \<Rightarrow>
               (case up 2 of
                  Timeout \<Rightarrow> (Inl AIServiceUnavailable, [b, 2 * b])
                | Garbled \<Rightarrow> (Inl MalformedAIResponse, [b, 2 * b])
                | Answer a \<Rightarrow> (Inr a, [b, 2 * b]))
           | Garbled \<Rightarrow> (Inl MalformedAIResponse, [b])
           | Answer a \<Rightarrow> (Inr a, [b]))
      | Garbled \<Rightarrow> (Inl MalformedAIResponse, [])
      | Answer a \<Rightarrow> (Inr a, []))"
proof -
  have m: "max_retries = Suc (Suc 0)" by (simp add: max_retries_def)
  have two: "(2::nat) = Suc (Suc 0)" by simp
  show ?thesis
    unfolding analyze_def m analyze_attempt.simps two
    by (simp split: upstream_reply.splits)
qed

subsection \<open>Refused requests, passed-through lists, initial fields\<close>

lemma expected_error_detail_or:
  "expected_error (Fulfilled d) dflt = detail_or d dflt"
proof (cases d)
  case None
  then show ?thesis by simp
next
  case (Some v)
  then show ?thesis by (cases v) simp_all
qed

lemma expected_error_thrown: "expected_error (Rejected e) dflt = err_message e"
  by (cases e) simp_all

lemma skill_gap_of_percentage:
  "match_percentage (skill_gap_of ai required preferred resume_skills)
     = match_percentage_of
         (length (matching_skills (skill_gap_of ai required preferred resume_skills)))
         (length (missing_skills (skill_gap_of ai required preferred resume_skills)))"
  by (cases ai) (simp_all add: skill_gap_of_def compute_gap_def Let_def)

text \<open>
  Called alone with the empty string for a name, which \<open>Home\<close> never passes, the component
  appends nothing: the test is \<open>candidateName ? ... : ""\<close>.
\<close>

lemma email_subject_empty_name:
  "es_subject (email_init nameless_props) = ''Application for Data Engineer''
   \<and> email_props_of h \<noteq> nameless_props"
proof -
  have "candidateName (email_props_of h) \<noteq> candidateName nameless_props"
    using home_passes_no_empty_name [of h] by (simp add: nameless_props_def)
  then have "email_props_of h \<noteq> nameless_props" by auto
  then show ?thesis by (simp add: nameless_props_def email_init_def)
qed

lemma render_email_mounts:
  "email y = None \<Longrightarrow> email_shown (home y) \<Longrightarrow>
     email (render_email y) = Some (mounts y, email_init (email_props_of (home y)))"
  by (simp add: render_email_def)

section \<open>The statements of the specification\<close>

text \<open>
  C1. For every skill gap that \<open>compute_gap\<close> computes, the percentage is
  \<open>round(100 * |matching| / max(1, |matching| + |missing|))\<close> clamped to 0..100: an integer
  between 0 and 100, and 0 when the matching and the missing list are both empty.
\<close>

theorem match_percentage_formula:
  "(let g = compute_gap required preferred resume_skills;
        m = length (matching_skills g);
        k = length (missing_skills g)
    in match_percentage g = max 0 (min 100 (round (100 * real m / real (max 1 (m + k)))))
       \<and> 0 \<le> match_percentage g \<and> match_percentage g \<le> 100
       \<and> (matching_skills g = [] \<and> missing_skills g = [] \<longrightarrow> match_percentage g = 0))"
proof -
  let ?g = "compute_gap required preferred resume_skills"
  have p: "match_percentage ?g
         = match_percentage_of (length (matching_skills ?g)) (length (missing_skills ?g))"
    by (simp add: compute_gap_def Let_def)
  have 1: "match_percentage ?g
         = max 0 (min 100 (round (100 * real (length (matching_skills ?g))
             / real (max 1 (length (matching_skills ?g) + length (missing_skills ?g))))))"
    unfolding p by (rule match_percentage_of_round)
  have 2: "0 \<le> match_percentage ?g \<and> match_percentage ?g \<le> 100"
    unfolding p by (rule match_percentage_of_range)
  have 3: "matching_skills ?g = [] \<and> missing_skills ?g = [] \<longrightarrow> match_percentage ?g = 0"
  proof
    assume "matching_skills ?g = [] \<and> missing_skills ?g = []"
    then have "match_percentage ?g = match_percentage_of 0 0" using p by simp
    then show "match_percentage ?g = 0" by (simp add: match_percentage_of_def)
  qed
  from 1 2 3 show ?thesis unfolding Let_def by blast
qed

theorem match_percentage_formula_witness:
  "matching_skills (compute_gap [] [''Docker''] []) = []
   \<and> missing_skills (compute_gap [] [''Docker''] []) = []
   \<and> match_percentage (compute_gap [] [''Docker''] []) = 0
   \<and> matching_skills (compute_gap [''Python'', ''SQL''] [] [''Python'']) = [''Python'']
   \<and> missing_skills (compute_gap [''Python'', ''SQL''] [] [''Python'']) = [''SQL'']
   \<and> match_percentage (compute_gap [''Python'', ''SQL''] [] [''Python'']) = 50"
proof -
  have e: "matching_skills (compute_gap [] [''Docker''] []) = []
         \<and> missing_skills (compute_gap [] [''Docker''] []) = []"
    by (simp add: compute_gap_def)
  have z: "match_percentage (compute_gap [] [''Docker''] []) = 0"
    using e match_percentage_formula [of "[]" "[''Docker'']" "[]"] unfolding Let_def by blast
  have s: "compute_gap [''Python'', ''SQL''] [] [''Python'']
         = \<lparr> matching_skills = [''Python''], partial_skills = [], missing_skills = [''SQL''],
             match_percentage = 50 \<rparr>"
    by code_simp
  show ?thesis using e z s by simp
qed



text \<open>
  C3. A successful generation downloads its document under the name \<open>latest_resume.<format>\<close>
  or \<open>latest_cover_letter.<format>\<close> and records the path \<open>generated/<name>\<close>. The names of
  two artifacts are equal only if kind and format are, a store filled by generations holds
  at most one file of each name, and a generation leaves its content as the one file of its
  name.
\<close>

theorem generation_uses_fixed_names:
  assumes "ok resp" and "payload resp = Fulfilled blob"
  shows "snd (handleGenerateResume_finish p cover f (Response resp) s)
           = Download (''latest_resume.'' @ format_str f) blob #
             (if dp_onDocumentsGenerated p
              then [OnDocumentsGenerated \<lparr> resumePath = ''generated/latest_resume.'' @ format_str f,
                                          coverLetterPath = cover \<rparr>]
              else [])
       \<and> dg_resumePath (fst (handleGenerateResume_finish p cover f (Response resp) s))
           = ''generated/latest_resume.'' @ format_str f
       \<and> snd (handleGenerateCoverLetter_finish p res f (Response resp) s)
           = Download (''latest_cover_letter.'' @ format_str f) blob #
             (if dp_onDocumentsGenerated p
              then [OnDocumentsGenerated \<lparr> resumePath = res,
                      coverLetterPath = ''generated/latest_cover_letter.'' @ format_str f \<rparr>]
              else [])
       \<and> dg_coverPath (fst (handleGenerateCoverLetter_finish p res f (Response resp) s))
           = ''generated/latest_cover_letter.'' @ format_str f
       \<and> artifact_name Resume f = ''latest_resume.'' @ format_str f
       \<and> artifact_name CoverLetter f = ''latest_cover_letter.'' @ format_str f
       \<and> (artifact_name k f = artifact_name k' f') = (k = k' \<and> f = f')
       \<and> length (files_named (artifact_name k f) (generate_all gs [])) \<le> 1
       \<and> files_named (artifact_name k f) (generate k f content st) = [content]"
proof -
  have 1: "snd (handleGenerateResume_finish p cover f (Response resp) s)
           = Download (''latest_resume.'' @ format_str f) blob #
             (if dp_onDocumentsGenerated p
              then [OnDocumentsGenerated \<lparr> resumePath = ''generated/latest_resume.'' @ format_str f,
                                          coverLetterPath = cover \<rparr>]
              else [])"
    and 2: "dg_resumePath (fst (handleGenerateResume_finish p cover f (Response resp) s))
           = ''generated/latest_resume.'' @ format_str f"
    using assms
    by (simp_all add: handleGenerateResume_finish_def resume_filename_def backendPath_def Let_def)
  have 3: "snd (handleGenerateCoverLetter_finish p res f (Response resp) s)
           = Download (''latest_cover_letter.'' @ format_str f) blob #
             (if dp_onDocumentsGenerated p
              then [OnDocumentsGenerated \<lparr> resumePath = res,
                      coverLetterPath = ''generated/latest_cover_letter.'' @ format_str f \<rparr>]
              else [])"
    and 4: "dg_coverPath (fst (handleGenerateCoverLetter_finish p res f (Response resp) s))
           = ''generated/latest_cover_letter.'' @ format_str f"
    using assms
    by (simp_all add: handleGenerateCoverLetter_finish_def cover_letter_filename_def backendPath_def Let_def)
  have 5: "artifact_name Resume f = ''latest_resume.'' @ format_str f"
    and 6: "artifact_name CoverLetter f = ''latest_cover_letter.'' @ format_str f"
    by (simp_all add: artifact_name_def resume_filename_def cover_letter_filename_def)
  have 7: "(artifact_name k f = artifact_name k' f') = (k = k' \<and> f = f')"
    by (rule artifact_name_inj)
  have "distinct (map fst (generate_all gs []))"
    by (rule distinct_generate_all) simp
  then have 8: "length (files_named (artifact_name k f) (generate_all gs [])) \<le> 1"
    by (rule files_named_distinct)
  have 9: "files_named (artifact_name k f) (generate k f content st) = [content]"
    by (simp add: generate_def files_named_write)
  from 1 2 3 4 5 6 7 8 9 show ?thesis by blast
qed

theorem generation_uses_fixed_names_witness:
  "snd (handleGenerateResume_finish sample_docgen_props [] Pdf (good [1, 2]) docgen_init)
     = [Download ''latest_resume.pdf'' [1, 2],
        OnDocumentsGenerated \<lparr> resumePath = ''generated/latest_resume.pdf'', coverLetterPath = [] \<rparr>]
   \<and> files_named ''latest_resume.pdf''
        (generate_all [(Resume, Pdf, [1]), (CoverLetter, Pdf, [2]), (Resume, Pdf, [3])] []) = [[3]]"
proof -
  have r: "good [1, 2] = Response \<lparr> ok = True, error_detail = Fulfilled None, payload = Fulfilled [1, 2::nat] \<rparr>"
    by (simp add: good_def)
  have "snd (handleGenerateResume_finish sample_docgen_props [] Pdf (good [1, 2]) docgen_init)
     = [Download ''latest_resume.pdf'' [1, 2],
        OnDocumentsGenerated \<lparr> resumePath = ''generated/latest_resume.pdf'', coverLetterPath = [] \<rparr>]"
    using generation_uses_fixed_names
      [of "\<lparr> ok = True, error_detail = Fulfilled None, payload = Fulfilled [1, 2::nat] \<rparr>"
          "[1, 2]" sample_docgen_props "[]" Pdf docgen_init]
    unfolding r by (simp add: sample_docgen_props_def)
  moreover have "files_named ''latest_resume.pdf''
        (generate_all [(Resume, Pdf, [1]), (CoverLetter, Pdf, [2]), (Resume, Pdf, [3])] []) = [[3]]"
    by (simp add: generate_def write_artifact_def files_named_def artifact_name_def
        resume_filename_def cover_letter_filename_def)
  ultimately show ?thesis by simp
qed



text \<open>
  C5. Every attachment path the client submits to \<open>POST /api/send-email\<close>, in any run of
  the page, is \<open>generated/latest_resume.<format>\<close> for the resume and
  \<open>generated/latest_cover_letter.<format>\<close> for the cover letter, and so resolves within
  the directory \<open>generated\<close>.
\<close>

theorem submitted_paths_are_generated_artifacts:
  assumes "HttpPost u (SendEmailJson r) \<in> set (trace (run evs))"
  shows "(\<exists>f. resume_path r = ''generated/latest_resume.'' @ format_str f)
       \<and> (\<exists>f. cover_letter_path r = ''generated/latest_cover_letter.'' @ format_str f)
       \<and> resolves_within ''generated'' (resume_path r)
       \<and> resolves_within ''generated'' (cover_letter_path r)"
proof -
  have "\<forall>e \<in> set (trace (run evs)). effect_ok e"
    using inv_run [of evs] by (simp add: paths_inv_def list_all_iff)
  then have "effect_ok (HttpPost u (SendEmailJson r))"
    using assms by blast
  then have r: "resume_path r = backendPath (resume_filename Docx) \<or> resume_path r = backendPath (resume_filename Pdf)"
    and c: "cover_letter_path r = backendPath (cover_letter_filename Docx) \<or> cover_letter_path r = backendPath (cover_letter_filename Pdf)"
    by (auto simp: valid_resume_def valid_cover_def)
  from r obtain f where "resume_path r = backendPath (resume_filename f)" by blast
  then have 1: "\<exists>f. resume_path r = ''generated/latest_resume.'' @ format_str f"
    by (auto simp: backendPath_def resume_filename_def)
  from c obtain g where "cover_letter_path r = backendPath (cover_letter_filename g)" by blast
  then have 2: "\<exists>f. cover_letter_path r = ''generated/latest_cover_letter.'' @ format_str f"
    by (auto simp: backendPath_def cover_letter_filename_def)
  have 3: "resolves_within ''generated'' (resume_path r)"
    using r by (auto simp: backendPath_def resume_filename_def resolves_within_def)
  have 4: "resolves_within ''generated'' (cover_letter_path r)"
    using c by (auto simp: backendPath_def cover_letter_filename_def resolves_within_def)
  from 1 2 3 4 show ?thesis by blast
qed


theorem submitted_paths_are_generated_artifacts_witness:
  "HttpPost send_email_url (SendEmailJson sample_request) \<in> set (trace (run sample_session))
   \<and> resume_path sample_request = ''generated/latest_resume.docx''
   \<and> cover_letter_path sample_request = ''generated/latest_cover_letter.pdf''
   \<and> resolves_within ''generated'' (resume_path sample_request)
   \<and> resolves_within ''generated'' (cover_letter_path sample_request)"
proof -
  have m: "HttpPost send_email_url (SendEmailJson sample_request) \<in> set (trace (run sample_session))"
    by code_simp
  show ?thesis
    using m submitted_paths_are_generated_artifacts [OF m]
    by (simp add: sample_request_def)
qed

text \<open>
  C6. A file selected or dropped in the upload component is stored in the resume or the
  job description slot only if its MIME type is \<open>application/pdf\<close>; for a file of any other
  type both slots are left as they were and the error is "Please upload PDF files only".
\<close>

theorem upload_stores_pdf_only:
  assumes "h = handleFileChange \<or> h = handleDrop"
  shows "(file_type f \<noteq> ''application/pdf'' \<longrightarrow>
            fu_resumeFile (h (Some (f # fs)) t s) = fu_resumeFile s
          \<and> fu_jobFile (h (Some (f # fs)) t s) = fu_jobFile s
          \<and> fu_error (h (Some (f # fs)) t s) = Some ''Please upload PDF files only'')
       \<and> (file_type f = ''application/pdf'' \<longrightarrow>
            fu_resumeFile (h (Some (f # fs)) ResumeSlot s) = Some f
          \<and> fu_jobFile (h (Some (f # fs)) ResumeSlot s) = fu_jobFile s
          \<and> fu_jobFile (h (Some (f # fs)) JobSlot s) = Some f
          \<and> fu_resumeFile (h (Some (f # fs)) JobSlot s) = fu_resumeFile s
          \<and> fu_error (h (Some (f # fs)) t s) = None)
       \<and> (fu_resumeFile (h files t s) \<noteq> fu_resumeFile s \<or> fu_jobFile (h files t s) \<noteq> fu_jobFile s
            \<longrightarrow> (\<exists>g gs. files = Some (g # gs) \<and> file_type g = ''application/pdf''))"
  using assms
  by (auto simp: handleFileChange_def handleDrop_def take_file_def
           split: option.splits list.splits if_splits)

theorem upload_stores_pdf_only_witness:
  "file_type sample_png \<noteq> ''application/pdf''
   \<and> fu_resumeFile (handleDrop (Some [sample_png]) ResumeSlot upload_init) = None
   \<and> fu_jobFile (handleDrop (Some [sample_png]) ResumeSlot upload_init) = None
   \<and> fu_error (handleDrop (Some [sample_png]) ResumeSlot upload_init)
       = Some ''Please upload PDF files only''
   \<and> file_type sample_resume = ''application/pdf''
   \<and> fu_resumeFile (handleFileChange (Some [sample_resume]) ResumeSlot upload_init)
       = Some sample_resume
   \<and> fu_resumeFile (handleFileChange (Some [sample_resume]) ResumeSlot upload_init)
       \<noteq> fu_resumeFile upload_init"
  using upload_stores_pdf_only
          [of handleDrop sample_png "[]" ResumeSlot upload_init "Some [sample_png]"]
        upload_stores_pdf_only
          [of handleFileChange sample_resume "[]" ResumeSlot upload_init "Some [sample_resume]"]
  by (simp add: sample_png_def sample_resume_def upload_init_def)

text \<open>
  C7 as the spec has it, with the success state null after every response that is not
  ok, fails on the page: the two generation handlers share the success cell, and a refusal
  that arrives after the other document was generated finds its message there and leaves
  it.
\<close>

theorem success_beside_refusal_counterexample:
  "\<not> ok (refusal (Some (JStr ''Unsupported format'')) :: nat list response)
   \<and> map_option (\<lambda>(i, s). (dg_error s, dg_success s)) (docgen (run interleaved_session))
       = Some (Some ''Unsupported format'',
               Some (check_mark @ '' Cover Letter: latest_cover_letter.pdf''))"
proof -
  have 1: "\<not> ok (refusal (Some (JStr ''Unsupported format'')) :: nat list response)"
    by (simp add: refusal_def)
  have 2: "map_option (\<lambda>(i, s). (dg_error s, dg_success s)) (docgen (run interleaved_session))
       = Some (Some ''Unsupported format'',
               Some (check_mark @ '' Cover Letter: latest_cover_letter.pdf''))"
    by code_simp
  from 1 2 show ?thesis by (rule conjI)
qed

text \<open>
  C7, amended. On a response whose \<open>ok\<close> is false a handler changes its error and its
  loading flag and nothing else. The error is the \<open>detail\<close> of the body when that is
  there and truthy (a string as it is, another value as JavaScript prints it), the
  handler's default message when there is no detail or a falsy one, and the message of what
  reading the body threw. The handler does not write the success state, which is null
  when the handler ran alone; \<open>onAnalysisComplete\<close> is not called, nothing is downloaded
  and no path is recorded.
\<close>

theorem failed_response_records_error:
  fixes ra :: "analysis_data response" and rg :: "nat list response"
    and rs :: "string option response"
  assumes "\<not> ok ra" and "\<not> ok rg" and "\<not> ok rs"
  shows
    "fst (handleAnalyze_finish r j (Response ra) u)
       = u\<lparr> fu_error := Some (expected_error (error_detail ra) ''Analysis failed''),
            fu_loading := False \<rparr>
     \<and> snd (handleAnalyze_finish r j (Response ra) u) = []
     \<and> snd (handleAnalyze (Response ra) u) = snd (handleAnalyze_start u)
     \<and> fu_error (fst (handleAnalyze (Response ra) u)) \<noteq> None
     \<and> (error_detail ra = Fulfilled None \<longrightarrow>
          fu_error (fst (handleAnalyze_finish r j (Response ra) u)) = Some ''Analysis failed'')
     \<and> (error_detail ra = Fulfilled (Some (JStr d)) \<and> d \<noteq> [] \<longrightarrow>
          fu_error (fst (handleAnalyze_finish r j (Response ra) u)) = Some d)
     \<and> fst (handleGenerateResume_finish p c f (Response rg) g)
       = g\<lparr> dg_error := Some (expected_error (error_detail rg) ''Resume generation failed''),
            loadingResume := False \<rparr>
     \<and> snd (handleGenerateResume_finish p c f (Response rg) g) = []
     \<and> dg_success (fst (handleGenerateResume_finish p c f (Response rg) g)) = dg_success g
     \<and> snd (handleGenerateResume p f (Response rg) g) = snd (handleGenerateResume_start p f g)
     \<and> dg_error (fst (handleGenerateResume p f (Response rg) g)) \<noteq> None
     \<and> (dp_resumeFile p \<noteq> None \<and> dp_jobDescriptionFile p \<noteq> None \<longrightarrow>
          dg_success (fst (handleGenerateResume p f (Response rg) g)) = None)
     \<and> (error_detail rg = Fulfilled None \<longrightarrow>
          dg_error (fst (handleGenerateResume_finish p c f (Response rg) g))
            = Some ''Resume generation failed'')
     \<and> (error_detail rg = Fulfilled (Some (JStr d)) \<and> d \<noteq> [] \<longrightarrow>
          dg_error (fst (handleGenerateResume_finish p c f (Response rg) g)) = Some d)
     \<and> fst (handleGenerateCoverLetter_finish p c f (Response rg) g)
       = g\<lparr> dg_error := Some (expected_error (error_detail rg) ''Cover letter generation failed''),
            loadingCover := False \<rparr>
     \<and> snd (handleGenerateCoverLetter_finish p c f (Response rg) g) = []
     \<and> dg_success (fst (handleGenerateCoverLetter_finish p c f (Response rg) g)) = dg_success g
     \<and> snd (handleGenerateCoverLetter p f (Response rg) g)
       = snd (handleGenerateCoverLetter_start p f g)
     \<and> dg_error (fst (handleGenerateCoverLetter p f (Response rg) g)) \<noteq> None
     \<and> (dp_resumeFile p \<noteq> None \<and> dp_jobDescriptionFile p \<noteq> None \<longrightarrow>
          dg_success (fst (handleGenerateCoverLetter p f (Response rg) g)) = None)
     \<and> (error_detail rg = Fulfilled None \<longrightarrow>
          dg_error (fst (handleGenerateCoverLetter_finish p c f (Response rg) g))
            = Some ''Cover letter generation failed'')
     \<and> (error_detail rg = Fulfilled (Some (JStr d)) \<and> d \<noteq> [] \<longrightarrow>
          dg_error (fst (handleGenerateCoverLetter_finish p c f (Response rg) g)) = Some d)
     \<and> fst (handleSendEmail_finish (Response rs) e)
       = e\<lparr> es_error := Some (expected_error (error_detail rs) ''Failed to send email''),
            sending := False \<rparr>
     \<and> snd (handleSendEmail_finish (Response rs) e) = []
     \<and> es_success (fst (handleSendEmail_finish (Response rs) e)) = es_success e
     \<and> es_error (fst (handleSendEmail q (Response rs) e)) \<noteq> None
     \<and> (snd (handleSendEmail q (Response rs) e) \<noteq> [] \<longrightarrow>
          es_success (fst (handleSendEmail q (Response rs) e)) = None)
     \<and> (error_detail rs = Fulfilled None \<longrightarrow>
          es_error (fst (handleSendEmail_finish (Response rs) e)) = Some ''Failed to send email'')
     \<and> (error_detail rs = Fulfilled (Some (JStr d)) \<and> d \<noteq> [] \<longrightarrow>
          es_error (fst (handleSendEmail_finish (Response rs) e)) = Some d)"
proof -
  note ee = expected_error_detail_or expected_error_thrown
  have a1: "fst (handleAnalyze_finish r j (Response ra) u)
       = u\<lparr> fu_error := Some (expected_error (error_detail ra) ''Analysis failed''),
            fu_loading := False \<rparr>"
    and a2: "snd (handleAnalyze_finish r j (Response ra) u) = []"
    using assms(1)
    by (simp_all add: handleAnalyze_finish_def analyze_failed_def ee split: settled.splits)
  have a3: "snd (handleAnalyze (Response ra) u) = snd (handleAnalyze_start u)"
    using assms(1) by (rule analyze_effects_failed)
  have a4: "fu_error (fst (handleAnalyze (Response ra) u)) \<noteq> None"
    using assms(1)
    by (auto simp: handleAnalyze_def handleAnalyze_start_def handleAnalyze_finish_def
        analyze_failed_def split: option.splits settled.splits)
  have a5: "error_detail ra = Fulfilled None \<longrightarrow>
          fu_error (fst (handleAnalyze_finish r j (Response ra) u)) = Some ''Analysis failed''"
    and a6: "error_detail ra = Fulfilled (Some (JStr d)) \<and> d \<noteq> [] \<longrightarrow>
          fu_error (fst (handleAnalyze_finish r j (Response ra) u)) = Some d"
    by (simp_all add: a1)
  have r1: "fst (handleGenerateResume_finish p c f (Response rg) g)
       = g\<lparr> dg_error := Some (expected_error (error_detail rg) ''Resume generation failed''),
            loadingResume := False \<rparr>"
    and r2: "snd (handleGenerateResume_finish p c f (Response rg) g) = []"
    using assms(2)
    by (simp_all add: handleGenerateResume_finish_def resume_failed_def ee split: settled.splits)
  have r8: "dg_success (fst (handleGenerateResume_finish p c f (Response rg) g)) = dg_success g"
    by (simp add: r1)
  have r3: "snd (handleGenerateResume p f (Response rg) g) = snd (handleGenerateResume_start p f g)"
    and r4: "dg_error (fst (handleGenerateResume p f (Response rg) g)) \<noteq> None"
    and r5: "dp_resumeFile p \<noteq> None \<and> dp_jobDescriptionFile p \<noteq> None \<longrightarrow>
          dg_success (fst (handleGenerateResume p f (Response rg) g)) = None"
    using assms(2)
    by (auto simp: handleGenerateResume_def handleGenerateResume_start_def
        handleGenerateResume_finish_def resume_failed_def split: option.splits settled.splits)
  have r6: "error_detail rg = Fulfilled None \<longrightarrow>
          dg_error (fst (handleGenerateResume_finish p c f (Response rg) g))
            = Some ''Resume generation failed''"
    and r7: "error_detail rg = Fulfilled (Some (JStr d)) \<and> d \<noteq> [] \<longrightarrow>
          dg_error (fst (handleGenerateResume_finish p c f (Response rg) g)) = Some d"
    by (simp_all add: r1)
  have c1: "fst (handleGenerateCoverLetter_finish p c f (Response rg) g)
       = g\<lparr> dg_error := Some (expected_error (error_detail rg) ''Cover letter generation failed''),
            loadingCover := False \<rparr>"
    and c2: "snd (handleGenerateCoverLetter_finish p c f (Response rg) g) = []"
    using assms(2)
    by (simp_all add: handleGenerateCoverLetter_finish_def cover_failed_def ee split: settled.splits)
  have c8: "dg_success (fst (handleGenerateCoverLetter_finish p c f (Response rg) g)) = dg_success g"
    by (simp add: c1)
  have c3: "snd (handleGenerateCoverLetter p f (Response rg) g)
       = snd (handleGenerateCoverLetter_start p f g)"
    and c4: "dg_error (fst (handleGenerateCoverLetter p f (Response rg) g)) \<noteq> None"
    and c5: "dp_resumeFile p \<noteq> None \<and> dp_jobDescriptionFile p \<noteq> None \<longrightarrow>
          dg_success (fst (handleGenerateCoverLetter p f (Response rg) g)) = None"
    using assms(2)
    by (auto simp: handleGenerateCoverLetter_def handleGenerateCoverLetter_start_def
        handleGenerateCoverLetter_finish_def cover_failed_def split: option.splits settled.splits)
  have c6: "error_detail rg = Fulfilled None \<longrightarrow>
          dg_error (fst (handleGenerateCoverLetter_finish p c f (Response rg) g))
            = Some ''Cover letter generation failed''"
    and c7: "error_detail rg = Fulfilled (Some (JStr d)) \<and> d \<noteq> [] \<longrightarrow>
          dg_error (fst (handleGenerateCoverLetter_finish p c f (Response rg) g)) = Some d"
    by (simp_all add: c1)
  have s1: "fst (handleSendEmail_finish (Response rs) e)
       = e\<lparr> es_error := Some (expected_error (error_detail rs) ''Failed to send email''),
            sending := False \<rparr>"
    and s2: "snd (handleSendEmail_finish (Response rs) e) = []"
    using assms(3)
    by (simp_all add: handleSendEmail_finish_def send_failed_def ee split: settled.splits)
  have s7: "es_success (fst (handleSendEmail_finish (Response rs) e)) = es_success e"
    by (simp add: s1)
  have s3: "es_error (fst (handleSendEmail q (Response rs) e)) \<noteq> None"
    and s4: "snd (handleSendEmail q (Response rs) e) \<noteq> [] \<longrightarrow>
          es_success (fst (handleSendEmail q (Response rs) e)) = None"
    using assms(3)
    by (auto simp: handleSendEmail_def handleSendEmail_start_def handleSendEmail_finish_def
        send_failed_def split: settled.splits)
  have s5: "error_detail rs = Fulfilled None \<longrightarrow>
          es_error (fst (handleSendEmail_finish (Response rs) e)) = Some ''Failed to send email''"
    and s6: "error_detail rs = Fulfilled (Some (JStr d)) \<and> d \<noteq> [] \<longrightarrow>
          es_error (fst (handleSendEmail_finish (Response rs) e)) = Some d"
    by (simp_all add: s1)
  show ?thesis
    by (intro conjI)
       (fact a1 a2 a3 a4 a5 a6 r1 r2 r3 r4 r5 r6 r7 r8 c1 c2 c3 c4 c5 c6 c7 c8 s1 s2 s3 s4 s5 s6 s7)+
qed


theorem failed_response_records_error_witness:
  "\<not> ok (refusal None :: analysis_data response)
   \<and> error_detail (refusal None :: analysis_data response) = Fulfilled None
   \<and> fu_error (fst (handleAnalyze_finish sample_resume sample_job (Response (refusal None))
        upload_init)) = Some ''Analysis failed''
   \<and> error_detail (refusal (Some (JStr ''Unsupported format'')) :: nat list response)
       = Fulfilled (Some (JStr ''Unsupported format''))
   \<and> dg_error (fst (handleGenerateResume_finish sample_docgen_props [] Docx
        (Response (refusal (Some (JStr ''Unsupported format'')))) docgen_init))
       = Some ''Unsupported format''
   \<and> dg_success (fst (handleGenerateResume sample_docgen_props Docx
        (Response (refusal (Some (JStr ''Unsupported format'')))) docgen_init)) = None
   \<and> es_error (fst (handleSendEmail_finish (Response (refusal (Some (JArr [JObj]))))
        (email_init sample_props))) = Some ''[object Object]''"
proof -
  have h: "\<not> ok (refusal x :: 'a response)" for x by (simp add: refusal_def)
  have d: "error_detail (refusal x :: 'a response) = Fulfilled x" for x by (simp add: refusal_def)
  note t = failed_response_records_error
    [where ra = "refusal None"
       and rg = "refusal (Some (JStr ''Unsupported format''))"
       and rs = "refusal (Some (JArr [JObj]))"
       and r = sample_resume and j = sample_job and u = upload_init
       and p = sample_docgen_props and c = "[]" and f = Docx and g = docgen_init
       and e = "email_init sample_props" and q = sample_props
       and d = "''Unsupported format''", OF h h h]
  have "error_detail (refusal None :: analysis_data response) = Fulfilled None \<longrightarrow>
      fu_error (fst (handleAnalyze_finish sample_resume sample_job (Response (refusal None))
        upload_init)) = Some ''Analysis failed''"
    using t by (elim conjE)
  then have 1: "fu_error (fst (handleAnalyze_finish sample_resume sample_job
        (Response (refusal None)) upload_init)) = Some ''Analysis failed''"
    using d by (rule mp)
  have "error_detail (refusal (Some (JStr ''Unsupported format'')) :: nat list response)
        = Fulfilled (Some (JStr ''Unsupported format'')) \<and> ''Unsupported format'' \<noteq> [] \<longrightarrow>
      dg_error (fst (handleGenerateResume_finish sample_docgen_props [] Docx
        (Response (refusal (Some (JStr ''Unsupported format'')))) docgen_init))
       = Some ''Unsupported format''"
    using t by (elim conjE)
  moreover have "error_detail (refusal (Some (JStr ''Unsupported format'')) :: nat list response)
        = Fulfilled (Some (JStr ''Unsupported format'')) \<and> ''Unsupported format'' \<noteq> []"
    by (simp add: d)
  ultimately have 2: "dg_error (fst (handleGenerateResume_finish sample_docgen_props [] Docx
        (Response (refusal (Some (JStr ''Unsupported format'')))) docgen_init))
       = Some ''Unsupported format''"
    by (rule mp)
  have "dp_resumeFile sample_docgen_props \<noteq> None
        \<and> dp_jobDescriptionFile sample_docgen_props \<noteq> None \<longrightarrow>
      dg_success (fst (handleGenerateResume sample_docgen_props Docx
        (Response (refusal (Some (JStr ''Unsupported format'')))) docgen_init)) = None"
    using t by (elim conjE)
  moreover have "dp_resumeFile sample_docgen_props \<noteq> None
      \<and> dp_jobDescriptionFile sample_docgen_props \<noteq> None"
    by (simp add: sample_docgen_props_def)
  ultimately have 3: "dg_success (fst (handleGenerateResume sample_docgen_props Docx
        (Response (refusal (Some (JStr ''Unsupported format'')))) docgen_init)) = None"
    by (rule mp)
  have "fst (handleSendEmail_finish (Response (refusal (Some (JArr [JObj]))))
          (email_init sample_props))
       = (email_init sample_props)
           \<lparr> es_error := Some (expected_error
                (error_detail (refusal (Some (JArr [JObj])) :: string option response))
                ''Failed to send email''),
             sending := False \<rparr>"
    using t by (elim conjE)
  then have 4: "es_error (fst (handleSendEmail_finish (Response (refusal (Some (JArr [JObj]))))
        (email_init sample_props))) = Some ''[object Object]''"
    by (simp add: d)
  show ?thesis
    by (intro conjI) (fact h d 1 2 3 4)+
qed

text \<open>
  C8. When the upstream service fails with a transient network error, \<open>analyze\<close> retries
  at most twice, with doubling delays, before it fails with \<open>AIServiceUnavailable\<close>; there
  is no third retry; and a malformed reply is never retried.
\<close>

theorem analyze_retries_at_most_twice:
  "length (snd (analyze b up)) \<le> 2
   \<and> upstream_calls (analyze b up) \<le> 3
   \<and> (up 0 = Timeout \<and> up 1 = Timeout \<and> up 2 = Timeout \<longrightarrow>
        analyze b up = (Inl AIServiceUnavailable, [b, 2 * b]))
   \<and> (fst (analyze b up) = Inl AIServiceUnavailable \<longrightarrow>
        up 0 = Timeout \<and> up 1 = Timeout \<and> up 2 = Timeout \<and> snd (analyze b up) = [b, 2 * b])
   \<and> (up i = Garbled \<longrightarrow> analyze_attempt b i up n = (Inl MalformedAIResponse, []))
   \<and> (up 0 = Garbled \<longrightarrow> analyze b up = (Inl MalformedAIResponse, []))
   \<and> (up 0 = Timeout \<and> up 1 = Garbled \<longrightarrow> analyze b up = (Inl MalformedAIResponse, [b]))
   \<and> (up 0 = Timeout \<and> up 1 = Timeout \<and> up 2 = Garbled \<longrightarrow>
        analyze b up = (Inl MalformedAIResponse, [b, 2 * b]))"
proof -
  have 1: "length (snd (analyze b up)) \<le> 2"
    unfolding analyze_def max_retries_def by (rule analyze_attempt_delays)
  then have 2: "upstream_calls (analyze b up) \<le> 3"
    by (simp add: upstream_calls_def)
  have 3: "up 0 = Timeout \<and> up 1 = Timeout \<and> up 2 = Timeout \<longrightarrow>
        analyze b up = (Inl AIServiceUnavailable, [b, 2 * b])"
    by (simp add: analyze_unfold)
  have 4: "fst (analyze b up) = Inl AIServiceUnavailable \<longrightarrow>
        up 0 = Timeout \<and> up 1 = Timeout \<and> up 2 = Timeout \<and> snd (analyze b up) = [b, 2 * b]"
    by (simp add: analyze_unfold split: upstream_reply.splits)
  have 5: "up i = Garbled \<longrightarrow> analyze_attempt b i up n = (Inl MalformedAIResponse, [])"
    by (simp add: analyze_attempt_garbled)
  have 6: "up 0 = Garbled \<longrightarrow> analyze b up = (Inl MalformedAIResponse, [])"
    by (simp add: analyze_unfold)
  have 7: "up 0 = Timeout \<and> up 1 = Garbled \<longrightarrow> analyze b up = (Inl MalformedAIResponse, [b])"
    by (simp add: analyze_unfold)
  have 8: "up 0 = Timeout \<and> up 1 = Timeout \<and> up 2 = Garbled \<longrightarrow>
        analyze b up = (Inl MalformedAIResponse, [b, 2 * b])"
    by (simp add: analyze_unfold)
  show ?thesis
    apply (rule conjI, rule 1)
    apply (rule conjI, rule 2)
    apply (rule conjI, rule 3)
    apply (rule conjI, rule 4)
    apply (rule conjI, rule 5)
    apply (rule conjI, rule 6)
    apply (rule conjI, rule 7)
    apply (rule 8)
    done
qed

theorem analyze_retries_at_most_twice_witness:
  "always_timeout 0 = Timeout \<and> always_timeout 1 = Timeout \<and> always_timeout 2 = Timeout
   \<and> analyze 5 always_timeout = (Inl AIServiceUnavailable, [5, 10])
   \<and> upstream_calls (analyze 5 always_timeout) = 3
   \<and> timeout_then_garbled 0 = Timeout \<and> timeout_then_garbled 1 = Garbled
   \<and> analyze 5 timeout_then_garbled = (Inl MalformedAIResponse, [5])
   \<and> upstream_calls (analyze 5 timeout_then_garbled) = 2"
proof -
  have a: "always_timeout 0 = Timeout \<and> always_timeout 1 = Timeout \<and> always_timeout 2 = Timeout"
    by (simp add: always_timeout_def)
  have g: "timeout_then_garbled 0 = Timeout \<and> timeout_then_garbled 1 = Garbled"
    by (simp add: timeout_then_garbled_def)
  note t = analyze_retries_at_most_twice [of 5 always_timeout 0 0]
  note u = analyze_retries_at_most_twice [of 5 timeout_then_garbled 0 0]
  have "analyze 5 always_timeout = (Inl AIServiceUnavailable, [5, 2 * 5])"
    using t [THEN conjunct2, THEN conjunct2, THEN conjunct1] a by (rule mp)
  then have ra: "analyze 5 always_timeout = (Inl AIServiceUnavailable, [5, 10])"
    by simp
  have rg: "analyze 5 timeout_then_garbled = (Inl MalformedAIResponse, [5])"
    using u [THEN conjunct2, THEN conjunct2, THEN conjunct2, THEN conjunct2, THEN conjunct2,
             THEN conjunct2, THEN conjunct1] g
    by (rule mp)
  have c: "upstream_calls (analyze 5 always_timeout) = 3"
    "upstream_calls (analyze 5 timeout_then_garbled) = 2"
    by (simp_all add: ra rg upstream_calls_def)
  show ?thesis
    apply (rule conjI [OF a [THEN conjunct1]])
    apply (rule conjI [OF a [THEN conjunct2, THEN conjunct1]])
    apply (rule conjI [OF a [THEN conjunct2, THEN conjunct2]])
    apply (rule conjI [OF ra])
    apply (rule conjI [OF c(1)])
    apply (rule conjI [OF g [THEN conjunct1]])
    apply (rule conjI [OF g [THEN conjunct2]])
    apply (rule conjI [OF rg])
    apply (rule c(2))
    done
qed

text \<open>
  C9. \<open>handleReset\<close> ("Start New Analysis") sets the step to \<open>upload\<close> and clears
  \<open>analysisData\<close> and \<open>uploadedFiles\<close>; \<open>generatedDocs\<close> is not touched, so the paths of
  documents generated before the reset are still there after it.
\<close>

theorem handleReset_keeps_generatedDocs:
  "step (handleReset h) = Upload
   \<and> analysisData (handleReset h) = None
   \<and> uploadedFiles (handleReset h) = \<lparr> resume = None, jobDescription = None \<rparr>
   \<and> generatedDocs (handleReset h) = generatedDocs h
   \<and> resumePath (generatedDocs (handleReset h)) = resumePath (generatedDocs h)
   \<and> coverLetterPath (generatedDocs (handleReset h)) = coverLetterPath (generatedDocs h)"
  by (simp add: handleReset_def)

text \<open>
  C10. The initial recipient of \<open>EmailSender\<close> is \<open>contactEmail\<close> when that is non-null and
  the empty string otherwise; its initial subject is \<open>Application for <jobTitle>\<close>, with
  \<open> - <candidateName>\<close> appended exactly when \<open>candidateName\<close> is non-null. This holds for
  the props \<open>Home\<close> passes in any of its states, where a name is null or non-empty, and for
  any props whose name is not the empty string.
\<close>

theorem email_sender_initial_fields:
  "recipientEmail (email_init p) = (case contactEmail p of None \<Rightarrow> [] | Some e \<Rightarrow> e)
   \<and> recipientEmail (email_init (email_props_of h))
       = (case contactEmail (email_props_of h) of None \<Rightarrow> [] | Some e \<Rightarrow> e)
   \<and> candidateName (email_props_of h) \<noteq> Some []
   \<and> es_subject (email_init (email_props_of h))
       = ''Application for '' @ jobTitle (email_props_of h)
         @ (case candidateName (email_props_of h) of None \<Rightarrow> [] | Some c \<Rightarrow> '' - '' @ c)
   \<and> (candidateName p \<noteq> Some [] \<longrightarrow>
        es_subject (email_init p)
          = ''Application for '' @ jobTitle p
            @ (case candidateName p of None \<Rightarrow> [] | Some c \<Rightarrow> '' - '' @ c))"
proof -
  have 1: "recipientEmail (email_init p) = (case contactEmail p of None \<Rightarrow> [] | Some e \<Rightarrow> e)"
    for p
    by (cases "contactEmail p") (simp_all add: email_init_def)
  have 3: "candidateName (email_props_of h) \<noteq> Some []"
    using home_passes_no_empty_name [of h] by (rule conjunct1)
  have 5: "candidateName p \<noteq> Some [] \<longrightarrow>
        es_subject (email_init p)
          = ''Application for '' @ jobTitle p
            @ (case candidateName p of None \<Rightarrow> [] | Some c \<Rightarrow> '' - '' @ c)"
    for p
    by (cases "candidateName p") (simp_all add: email_init_def)
  have 4: "es_subject (email_init (email_props_of h))
       = ''Application for '' @ jobTitle (email_props_of h)
         @ (case candidateName (email_props_of h) of None \<Rightarrow> [] | Some c \<Rightarrow> '' - '' @ c)"
    using 5 [of "email_props_of h"] 3 by (rule mp)
  show ?thesis
    by (intro conjI) (fact 1 3 4 5)+
qed

theorem email_sender_initial_fields_witness:
  "candidateName sample_props \<noteq> Some []
   \<and> es_subject (email_init sample_props) = ''Application for Data Engineer - Ada''
   \<and> recipientEmail (email_init sample_props) = ''jobs@acme.test''
   \<and> es_subject (email_init (email_props_of
        (handleAnalysisComplete sample_data sample_resume sample_job home_init)))
       = ''Application for Data Engineer - Ada''
   \<and> es_subject (email_init (email_props_of home_init)) = ''Application for ''
   \<and> recipientEmail (email_init (email_props_of home_init)) = []"
proof -
  have n: "candidateName sample_props \<noteq> Some []" by (simp add: sample_props_def)
  note t = email_sender_initial_fields [where p = sample_props and h = home_init]
  note u = email_sender_initial_fields
    [where p = sample_props
       and h = "handleAnalysisComplete sample_data sample_resume sample_job home_init"]
  have "candidateName sample_props \<noteq> Some [] \<longrightarrow>
        es_subject (email_init sample_props)
          = ''Application for '' @ jobTitle sample_props
            @ (case candidateName sample_props of None \<Rightarrow> [] | Some c \<Rightarrow> '' - '' @ c)"
    using t by (elim conjE)
  then have "es_subject (email_init sample_props)
          = ''Application for '' @ jobTitle sample_props
            @ (case candidateName sample_props of None \<Rightarrow> [] | Some c \<Rightarrow> '' - '' @ c)"
    using n by (rule mp)
  then have 1: "es_subject (email_init sample_props) = ''Application for Data Engineer - Ada''"
    by (simp add: sample_props_def)
  have "recipientEmail (email_init sample_props)
      = (case contactEmail sample_props of None \<Rightarrow> [] | Some e \<Rightarrow> e)"
    using t by (elim conjE)
  then have 2: "recipientEmail (email_init sample_props) = ''jobs@acme.test''"
    by (simp add: sample_props_def)
  let ?h = "handleAnalysisComplete sample_data sample_resume sample_job home_init"
  have p: "jobTitle (email_props_of ?h) = ''Data Engineer''"
    "candidateName (email_props_of ?h) = Some ''Ada''"
    "jobTitle (email_props_of home_init) = []"
    "candidateName (email_props_of home_init) = None"
    "contactEmail (email_props_of home_init) = None"
    by (simp_all add: email_props_of_def handleAnalysisComplete_def sample_data_def home_init_def)
  have "es_subject (email_init (email_props_of ?h))
       = ''Application for '' @ jobTitle (email_props_of ?h)
         @ (case candidateName (email_props_of ?h) of None \<Rightarrow> [] | Some c \<Rightarrow> '' - '' @ c)"
    using u by (elim conjE)
  then have 3: "es_subject (email_init (email_props_of ?h)) = ''Application for Data Engineer - Ada''"
    by (simp add: p)
  have "es_subject (email_init (email_props_of home_init))
       = ''Application for '' @ jobTitle (email_props_of home_init)
         @ (case candidateName (email_props_of home_init) of None \<Rightarrow> [] | Some c \<Rightarrow> '' - '' @ c)"
    using t by (elim conjE)
  then have 4: "es_subject (email_init (email_props_of home_init)) = ''Application for ''"
    by (simp add: p)
  have "recipientEmail (email_init (email_props_of home_init))
       = (case contactEmail (email_props_of home_init) of None \<Rightarrow> [] | Some e \<Rightarrow> e)"
    using t by (elim conjE)
  then have 5: "recipientEmail (email_init (email_props_of home_init)) = []"
    by (simp add: p)
  show ?thesis
    by (intro conjI) (fact n 1 2 3 4 5)+
qed

end
